theory Spec2Isabelle
  imports Complex_Main "HOL-Library.Sublist"
begin

section \<open>Travel Data Aggregator API (blog/backend-api/main.py)\<close>

text \<open>
  A shallow embedding of the aggregation service. Python strings are modelled as HOL
  strings over ASCII: \<open>str.lower\<close>, \<open>str.upper\<close> and \<open>str.strip\<close> act on the
  ASCII letters and the ASCII whitespace characters, and leave every other character
  alone. The test \<open>a in b\<close> on two strings is \<open>sublist a b\<close>: \<open>a\<close> occurs in
  \<open>b\<close> as a contiguous block.
\<close>

subsection \<open>Python strings\<close>

definition lower_char :: "char \<Rightarrow> char" where
  "lower_char c =
     (let n = (of_char c :: nat) in if 65 \<le> n \<and> n \<le> 90 then char_of (n + 32) else c)"

definition upper_char :: "char \<Rightarrow> char" where
  "upper_char c =
     (let n = (of_char c :: nat) in if 97 \<le> n \<and> n \<le> 122 then char_of (n - 32) else c)"

definition lower :: "string \<Rightarrow> string" where
  "lower s = map lower_char s"

definition upper :: "string \<Rightarrow> string" where
  "upper s = map upper_char s"

text \<open>The characters \<open>str.strip()\<close> removes: tab, line feed, vertical tab, form feed,
  carriage return, the four separators 28 to 31, and the space.\<close>

definition is_space :: "char \<Rightarrow> bool" where
  "is_space c = (let n = (of_char c :: nat) in (9 \<le> n \<and> n \<le> 13) \<or> (28 \<le> n \<and> n \<le> 32))"

definition strip :: "string \<Rightarrow> string" where
  "strip s = rev (dropWhile is_space (rev (dropWhile is_space s)))"

text \<open>\<open>sep.join(xs)\<close>\<close>

fun join :: "string \<Rightarrow> string list \<Rightarrow> string" where
  "join sep [] = []"
| "join sep [x] = x"
| "join sep (x # y # ys) = x @ sep @ join sep (y # ys)"

subsection \<open>Python floats\<close>

text \<open>
  A float is a finite value, an infinity or NaN (\<open>json.loads\<close> reads the tokens
  \<open>Infinity\<close>, \<open>-Infinity\<close> and \<open>NaN\<close>). Every comparison with NaN is false.
\<close>

datatype pyfloat = Finite real | PosInf | NegInf | NaN

fun float_gt :: "pyfloat \<Rightarrow> real \<Rightarrow> bool" where
  "float_gt (Finite x) y = (x > y)"
| "float_gt PosInf y = True"
| "float_gt NegInf y = False"
| "float_gt NaN y = False"

fun float_lt :: "pyfloat \<Rightarrow> real \<Rightarrow> bool" where
  "float_lt (Finite x) y = (x < y)"
| "float_lt PosInf y = False"
| "float_lt NegInf y = True"
| "float_lt NaN y = False"

subsection \<open>Models\<close>

record Destination =
  country_code :: string
  country_name :: string
  capital :: string
  region :: string
  population :: int
  currencies :: "string list"
  languages :: "string list"

record Weather =
  location :: string
  temperature_celsius :: pyfloat
  weather_description :: string
  humidity :: int
  wind_speed_kmh :: pyfloat

record TravelSummary =
  ts_country_code :: string
  ts_country_name :: string
  ts_capital :: string
  ts_region :: string
  ts_population :: int
  ts_currencies :: "string list"
  ts_languages :: "string list"
  current_weather :: Weather
  travel_tips :: "string list"
  best_time_to_visit :: string

record TravelRequest =
  req_country_code :: "string option"

record TravelByNameRequest =
  req_country_name :: string

record CountryCodeResponse =
  ccr_country_code :: string
  ccr_country_name :: string

subsection \<open>Enrichment: travel tips and best time to visit\<close>

definition region_tips :: "(string \<times> string) list" where
  "region_tips =
    [(''Europe'', ''Consider getting a travel adapter for EU plugs''),
     (''Asia'', ''Learn a few local phrases - it's appreciated!''),
     (''Oceania'', ''Don't forget reef-safe sunscreen for beach visits''),
     (''Americas'', ''Check visa requirements before traveling''),
     (''Africa'', ''Consult a travel health clinic for vaccinations'')]"

text \<open>\<open>generate_travel_tips\<close>: the list \<open>tips\<close> starts empty and each rule appends to it.\<close>

definition generate_travel_tips :: "string \<Rightarrow> string \<Rightarrow> Weather \<Rightarrow> string list" where
  "generate_travel_tips cname reg weather =
    (let tips0 = [];
         tips1 =
           (if float_gt (temperature_celsius weather) 30 then
              (tips0 @ [''Pack light, breathable clothing - it's hot!''])
                @ [''Stay hydrated and use sunscreen'']
            else if float_lt (temperature_celsius weather) 10 then
              (tips0 @ [''Bring warm layers - it's cold!''])
                @ [''Pack a good jacket and warm accessories'']
            else tips0 @ [''Weather is mild - pack versatile clothing'']);
         tips2 =
           (if sublist ''rain'' (lower (weather_description weather))
               \<or> sublist ''drizzle'' (lower (weather_description weather))
            then tips1 @ [''Bring an umbrella or rain jacket'']
            else tips1);
         tips3 =
           (case map_of region_tips reg of
              Some t \<Rightarrow> tips2 @ [t]
            | None \<Rightarrow> tips2)
     in tips3 @ [''Research local customs and etiquette for '' @ cname])"

definition best_times :: "(string \<times> string) list" where
  "best_times =
    [(''JP'', ''March-May (cherry blossoms) or October-November (autumn colors)''),
     (''FR'', ''April-June or September-October for mild weather''),
     (''IT'', ''April-June or September-October to avoid crowds''),
     (''ES'', ''March-May or September-November for pleasant weather''),
     (''TH'', ''November-February (cool and dry season)''),
     (''AU'', ''September-November (spring) or March-May (autumn)''),
     (''GB'', ''May-September for warmer weather''),
     (''DE'', ''May-September for outdoor activities''),
     (''NZ'', ''December-February (summer) for best weather''),
     (''CA'', ''June-August for summer, December-March for skiing'')]"

definition get_best_time_to_visit :: "string \<Rightarrow> string \<Rightarrow> string" where
  "get_best_time_to_visit reg code =
    (case map_of best_times code of
       Some s \<Rightarrow> s
     | None \<Rightarrow> ''Research the best season for '' @ reg)"

subsection \<open>JSON values and Python exceptions\<close>

text \<open>
  What \<open>response.json()\<close> returns. An object is the list of its members in insertion
  order, as a Python dict keeps them; its keys are pairwise distinct.
\<close>

datatype json =
    JNull
  | JBool bool
  | JInt int
  | JFloat pyfloat
  | JStr string
  | JArr "json list"
  | JObj "(string \<times> json) list"

text \<open>
  An endpoint either returns, or raises \<open>HTTPException(status_code, detail)\<close>, or lets
  another Python exception escape (which the framework answers with status 500).
\<close>

datatype pyexc = AttributeError | KeyError | IndexError | TypeError | ValueError | ValidationError

datatype error = HTTPException nat string | Uncaught pyexc

definition bind_err :: "error + 'a \<Rightarrow> ('a \<Rightarrow> error + 'b) \<Rightarrow> error + 'b" where
  "bind_err m f = (case m of Inl e \<Rightarrow> Inl e | Inr x \<Rightarrow> f x)"

text \<open>Truth value of a Python object in \<open>if v\<close>, \<open>not v\<close>, \<open>a and b\<close>.\<close>

fun truthy :: "json \<Rightarrow> bool" where
  "truthy JNull = False"
| "truthy (JBool b) = b"
| "truthy (JInt n) = (n \<noteq> 0)"
| "truthy (JFloat f) = (f \<noteq> Finite 0)"
| "truthy (JStr s) = (s \<noteq> [])"
| "truthy (JArr xs) = (xs \<noteq> [])"
| "truthy (JObj kvs) = (kvs \<noteq> [])"

text \<open>\<open>d.get(k, dflt)\<close>: only a dict has the method.\<close>

fun dict_get :: "json \<Rightarrow> string \<Rightarrow> json \<Rightarrow> error + json" where
  "dict_get (JObj kvs) k dflt = Inr (case map_of kvs k of Some v \<Rightarrow> v | None \<Rightarrow> dflt)"
| "dict_get _ k dflt = Inl (Uncaught AttributeError)"

text \<open>\<open>list(d.keys())\<close> and \<open>list(d.values())\<close>\<close>

fun dict_keys :: "json \<Rightarrow> error + json list" where
  "dict_keys (JObj kvs) = Inr (map (\<lambda>kv. JStr (fst kv)) kvs)"
| "dict_keys _ = Inl (Uncaught AttributeError)"

fun dict_values :: "json \<Rightarrow> error + json list" where
  "dict_values (JObj kvs) = Inr (map snd kvs)"
| "dict_values _ = Inl (Uncaught AttributeError)"

text \<open>\<open>v[0]\<close>: the first element of a list, the first character of a string; a dict from
  JSON has string keys only, so the key \<open>0\<close> is missing.\<close>

fun subscript0 :: "json \<Rightarrow> error + json" where
  "subscript0 (JArr []) = Inl (Uncaught IndexError)"
| "subscript0 (JArr (x # xs)) = Inr x"
| "subscript0 (JStr []) = Inl (Uncaught IndexError)"
| "subscript0 (JStr (c # cs)) = Inr (JStr [c])"
| "subscript0 (JObj kvs) = Inl (Uncaught KeyError)"
| "subscript0 _ = Inl (Uncaught TypeError)"

text \<open>\<open>v[k]\<close> for a string key \<open>k\<close>\<close>

fun subscript_key :: "json \<Rightarrow> string \<Rightarrow> error + json" where
  "subscript_key (JObj kvs) k =
     (case map_of kvs k of Some v \<Rightarrow> Inr v | None \<Rightarrow> Inl (Uncaught KeyError))"
| "subscript_key _ k = Inl (Uncaught TypeError)"

text \<open>\<open>for x in v\<close>: a dict yields its keys, a string its characters.\<close>

fun iterate :: "json \<Rightarrow> error + json list" where
  "iterate (JArr xs) = Inr xs"
| "iterate (JObj kvs) = Inr (map (\<lambda>kv. JStr (fst kv)) kvs)"
| "iterate (JStr s) = Inr (map (\<lambda>c. JStr [c]) s)"
| "iterate _ = Inl (Uncaught TypeError)"

text \<open>\<open>len(v)\<close>\<close>

fun len :: "json \<Rightarrow> error + nat" where
  "len (JArr xs) = Inr (length xs)"
| "len (JObj kvs) = Inr (length kvs)"
| "len (JStr s) = Inr (length s)"
| "len _ = Inl (Uncaught TypeError)"

subsection \<open>The world outside: upstream services and model validation\<close>

text \<open>
  Each outbound call is a \<open>client.get\<close> followed by \<open>raise_for_status()\<close> and
  \<open>response.json()\<close>. Its outcome is one of: \<open>client.get\<close> raised a transport error
  (an \<open>httpx.HTTPError\<close> that is no \<open>HTTPStatusError\<close>; the string is \<open>str(e)\<close>);
  \<open>raise_for_status()\<close> raised \<open>HTTPStatusError\<close> (the response's status code and
  \<open>str(e)\<close>); or the status was accepted and \<open>response.json()\<close> returned a value, or
  raised because the body is no JSON (\<open>None\<close>).
\<close>

datatype request =
    AlphaCodes string
  | AlphaCode string
  | NameSearch string
  | GeocodingSearch string
  | Forecast json json

datatype http_result =
    RequestError string
  | StatusError nat string
  | Success "json option"

text \<open>
  The models are pydantic models. A JSON string is accepted by a \<open>str\<close> field, a JSON
  integer of 64 bits by an \<open>int\<close> field, a float and an exactly representable integer
  by a \<open>float\<close> field. What pydantic does with any other value (coerce it or reject
  it) depends on its version and mode, and is a parameter of the model.
\<close>

record env =
  http :: "request \<Rightarrow> http_result"
  lax_str :: "json \<Rightarrow> string option"
  lax_int :: "json \<Rightarrow> int option"
  lax_float :: "json \<Rightarrow> pyfloat option"

fun validate_str :: "env \<Rightarrow> json \<Rightarrow> string option" where
  "validate_str env (JStr s) = Some s"
| "validate_str env v = lax_str env v"

definition validate_int :: "env \<Rightarrow> json \<Rightarrow> int option" where
  "validate_int env v =
     (case v of
        JInt n \<Rightarrow> if - (2 ^ 63) \<le> n \<and> n < 2 ^ 63 then Some n else lax_int env v
      | _ \<Rightarrow> lax_int env v)"

definition validate_float :: "env \<Rightarrow> json \<Rightarrow> pyfloat option" where
  "validate_float env v =
     (case v of
        JFloat f \<Rightarrow> Some f
      | JInt n \<Rightarrow> if \<bar>n\<bar> \<le> 2 ^ 53 then Some (Finite (of_int n)) else lax_float env v
      | _ \<Rightarrow> lax_float env v)"

definition validate_str_list :: "env \<Rightarrow> json list \<Rightarrow> string list option" where
  "validate_str_list env vs = those (map (validate_str env) vs)"

text \<open>\<open>Destination(country_code=..., ...)\<close>: every field is validated; one invalid field
  raises \<open>ValidationError\<close>.\<close>

definition new_Destination ::
  "env \<Rightarrow> json \<Rightarrow> json \<Rightarrow> json \<Rightarrow> json \<Rightarrow> json \<Rightarrow> json list \<Rightarrow> json list \<Rightarrow> error + Destination"
where
  "new_Destination env cc cn cap reg pop curs langs =
     (case (validate_str env cc, validate_str env cn, validate_str env cap,
            validate_str env reg, validate_int env pop,
            validate_str_list env curs, validate_str_list env langs) of
        (Some cc', Some cn', Some cap', Some reg', Some pop', Some curs', Some langs') \<Rightarrow>
          Inr \<lparr>country_code = cc', country_name = cn', capital = cap', region = reg',
               population = pop', currencies = curs', languages = langs'\<rparr>
      | _ \<Rightarrow> Inl (Uncaught ValidationError))"

definition new_Weather :: "env \<Rightarrow> string \<Rightarrow> json \<Rightarrow> string \<Rightarrow> json \<Rightarrow> json \<Rightarrow> error + Weather"
where
  "new_Weather env loc temp descr hum wind =
     (case (validate_float env temp, validate_int env hum, validate_float env wind) of
        (Some temp', Some hum', Some wind') \<Rightarrow>
          Inr \<lparr>location = loc, temperature_celsius = temp', weather_description = descr,
               humidity = hum', wind_speed_kmh = wind'\<rparr>
      | _ \<Rightarrow> Inl (Uncaught ValidationError))"

definition new_CountryCodeResponse :: "env \<Rightarrow> json \<Rightarrow> json \<Rightarrow> error + CountryCodeResponse" where
  "new_CountryCodeResponse env cc cn =
     (case (validate_str env cc, validate_str env cn) of
        (Some cc', Some cn') \<Rightarrow> Inr \<lparr>ccr_country_code = cc', ccr_country_name = cn'\<rparr>
      | _ \<Rightarrow> Inl (Uncaught ValidationError))"

text \<open>
  An operation that talks to the upstream services returns its result together with the
  requests it issued, in order. \<open>await\<close> runs a second operation after a first one that
  returned, and stops at a first one that raised.
\<close>

type_synonym 'a io = "(error + 'a) \<times> request list"

definition await :: "'a io \<Rightarrow> ('a \<Rightarrow> 'b io) \<Rightarrow> 'b io" where
  "await m f =
     (case m of
        (Inl e, t) \<Rightarrow> (Inl e, t)
      | (Inr x, t) \<Rightarrow> (case f x of (r, t') \<Rightarrow> (r, t @ t')))"

definition pure :: "error + 'a \<Rightarrow> 'a io" where
  "pure r = (r, [])"

subsection \<open>Country directory: \<open>get_destinations\<close>, \<open>search_destination_by_name\<close>,
  \<open>get_destination_info\<close>\<close>

definition popular_codes :: "string list" where
  "popular_codes = [''JP'', ''FR'', ''IT'', ''ES'', ''TH'', ''AU'', ''GB'', ''DE'', ''NZ'', ''CA'']"

text \<open>
  The mapping of one upstream record into a \<open>Destination\<close>, written twice in the source
  with the same text (in the loop of \<open>get_destinations\<close>, and at the end of
  \<open>get_destination_info\<close>): the three conditional extractions first, in the order
  currencies, languages, capital, then the constructor call with its arguments.
\<close>

definition build_destination :: "env \<Rightarrow> json \<Rightarrow> error + Destination" where
  "build_destination env country =
     bind_err (dict_get country ''currencies'' JNull) (\<lambda>c.
     bind_err (if truthy c then
                 bind_err (dict_get country ''currencies'' (JObj [])) dict_keys
               else Inr [JStr ''N/A'']) (\<lambda>currencies.
     bind_err (dict_get country ''languages'' JNull) (\<lambda>l.
     bind_err (if truthy l then
                 bind_err (dict_get country ''languages'' (JObj [])) dict_values
               else Inr [JStr ''N/A'']) (\<lambda>languages.
     bind_err (dict_get country ''capital'' JNull) (\<lambda>k.
     bind_err (if truthy k then
                 bind_err (dict_get country ''capital'' (JArr [JStr ''N/A''])) subscript0
               else Inr (JStr ''N/A'')) (\<lambda>capital.
     bind_err (dict_get country ''cca2'' (JStr [])) (\<lambda>cca2.
     bind_err (dict_get country ''name'' (JObj [])) (\<lambda>name.
     bind_err (dict_get name ''common'' (JStr ''Unknown'')) (\<lambda>common.
     bind_err (dict_get country ''region'' (JStr ''Unknown'')) (\<lambda>reg.
     bind_err (dict_get country ''population'' (JInt 0)) (\<lambda>pop.
       new_Destination env cca2 common capital reg pop currencies languages)))))))))))"

text \<open>The loop \<open>for country in countries_data: destinations.append(...)\<close>\<close>

fun destinations_loop :: "env \<Rightarrow> Destination list \<Rightarrow> json list \<Rightarrow> error + Destination list" where
  "destinations_loop env destinations [] = Inr destinations"
| "destinations_loop env destinations (country # rest) =
     bind_err (build_destination env country) (\<lambda>d.
       destinations_loop env (destinations @ [d]) rest)"

definition get_destinations :: "env \<Rightarrow> Destination list io" where
  "get_destinations env =
     (let rq = AlphaCodes (join '','' popular_codes) in
      (case http env rq of
         RequestError msg \<Rightarrow>
           Inl (HTTPException 503 (''Failed to fetch country data: '' @ msg))
       | StatusError st msg \<Rightarrow>
           Inl (HTTPException 503 (''Failed to fetch country data: '' @ msg))
       | Success None \<Rightarrow> Inl (Uncaught ValueError)
       | Success (Some countries_data) \<Rightarrow>
           bind_err (iterate countries_data) (destinations_loop env []),
       [rq]))"

text \<open>The test of both name searches: case-insensitive containment, in either direction.\<close>

definition name_matches :: "string \<Rightarrow> Destination \<Rightarrow> bool" where
  "name_matches cname dest \<longleftrightarrow>
     sublist (lower cname) (lower (country_name dest))
     \<or> sublist (lower (country_name dest)) (lower cname)"

definition search_destination_by_name :: "env \<Rightarrow> string \<Rightarrow> CountryCodeResponse io" where
  "search_destination_by_name env country =
     await (get_destinations env) (\<lambda>destinations.
       case find (name_matches country) destinations of
         Some dest \<Rightarrow>
           pure (Inr \<lparr>ccr_country_code = country_code dest,
                       ccr_country_name = country_name dest\<rparr>)
       | None \<Rightarrow>
           (let rq = NameSearch country;
                not_found = Inl (HTTPException 404
                  (''Country '' @ [CHR 0x27] @ country @ [CHR 0x27] @ '' not found. Try: ''
                   @ join '', '' (map country_name (take 5 destinations)) @ ''...''))
            in
            (case http env rq of
               RequestError msg \<Rightarrow> not_found
             | StatusError st msg \<Rightarrow> not_found
             | Success None \<Rightarrow> Inl (Uncaught ValueError)
             | Success (Some countries) \<Rightarrow>
                 (if \<not> truthy countries then not_found
                  else
                    bind_err (len countries) (\<lambda>n.
                      if n > 0 then
                        bind_err (subscript0 countries) (\<lambda>c.
                        bind_err (dict_get c ''cca2'' (JStr [])) (\<lambda>cca2.
                        bind_err (dict_get c ''name'' (JObj [])) (\<lambda>name.
                        bind_err (dict_get name ''common'' (JStr ''Unknown'')) (\<lambda>common.
                          new_CountryCodeResponse env cca2 common))))
                      else not_found)),
             [rq])))"

definition get_destination_info :: "env \<Rightarrow> string \<Rightarrow> Destination io" where
  "get_destination_info env code =
     (let rq = AlphaCode (upper code) in
      (case http env rq of
         RequestError msg \<Rightarrow>
           Inl (HTTPException 503 (''Failed to fetch country data: '' @ msg))
       | StatusError st msg \<Rightarrow>
           (if st = 404 then Inl (HTTPException 404 (''Country '' @ code @ '' not found''))
            else Inl (HTTPException 503 (''Failed to fetch country data: '' @ msg)))
       | Success None \<Rightarrow> Inl (Uncaught ValueError)
       | Success (Some country_data) \<Rightarrow>
           bind_err (case country_data of
                       JArr xs \<Rightarrow> subscript0 country_data
                     | _ \<Rightarrow> Inr country_data)
             (build_destination env),
       [rq]))"

subsection \<open>Geocoding: \<open>get_coordinates\<close>\<close>

text \<open>The pair returned is \<open>(None, None)\<close>, here \<open>(JNull, JNull)\<close>, or the two members
  \<open>latitude\<close> and \<open>longitude\<close> of the first result, whatever values they are.\<close>

definition get_coordinates :: "env \<Rightarrow> string \<Rightarrow> string \<Rightarrow> (json \<times> json) io" where
  "get_coordinates env city code =
     (let rq = GeocodingSearch city in
      (case http env rq of
         RequestError msg \<Rightarrow> Inr (JNull, JNull)
       | StatusError st msg \<Rightarrow> Inr (JNull, JNull)
       | Success None \<Rightarrow> Inl (Uncaught ValueError)
       | Success (Some data) \<Rightarrow>
           bind_err (dict_get data ''results'' JNull) (\<lambda>rs.
             if truthy rs then
               bind_err (subscript_key data ''results'') (\<lambda>rs'.
               bind_err (subscript0 rs') (\<lambda>result.
               bind_err (subscript_key result ''latitude'') (\<lambda>lat.
               bind_err (subscript_key result ''longitude'') (\<lambda>lon.
                 Inr (lat, lon)))))
             else Inr (JNull, JNull)),
       [rq]))"

subsection \<open>Weather: \<open>get_weather_for_location\<close>\<close>

definition weather_codes :: "(int \<times> string) list" where
  "weather_codes =
    [(0, ''Clear sky''), (1, ''Mainly clear''), (2, ''Partly cloudy''), (3, ''Overcast''),
     (45, ''Foggy''), (48, ''Depositing rime fog''), (51, ''Light drizzle''),
     (53, ''Moderate drizzle''),
     (55, ''Dense drizzle''), (61, ''Slight rain''), (63, ''Moderate rain''),
     (65, ''Heavy rain''),
     (71, ''Slight snow''), (73, ''Moderate snow''), (75, ''Heavy snow''),
     (80, ''Slight rain showers''),
     (81, ''Moderate rain showers''), (82, ''Violent rain showers''), (95, ''Thunderstorm'')]"

text \<open>\<open>weather_codes.get(code, "Unknown")\<close> for an integer \<open>code\<close>\<close>

definition weather_codes_get_int :: "int \<Rightarrow> string" where
  "weather_codes_get_int code =
     (case map_of weather_codes code of Some s \<Rightarrow> s | None \<Rightarrow> ''Unknown'')"

text \<open>
  \<open>weather_codes.get(weather_code, "Unknown")\<close> for any value read from the response:
  \<open>True\<close>, \<open>False\<close> and a float with an integral value are equal to an integer key
  and hash like it; a list or a dict cannot be hashed.
\<close>

fun weather_codes_get :: "json \<Rightarrow> error + string" where
  "weather_codes_get (JInt n) = Inr (weather_codes_get_int n)"
| "weather_codes_get (JBool b) = Inr (weather_codes_get_int (if b then 1 else 0))"
| "weather_codes_get (JFloat (Finite x)) =
     Inr (if of_int \<lfloor>x\<rfloor> = x then weather_codes_get_int \<lfloor>x\<rfloor> else ''Unknown'')"
| "weather_codes_get (JFloat f) = Inr ''Unknown''"
| "weather_codes_get (JStr s) = Inr ''Unknown''"
| "weather_codes_get JNull = Inr ''Unknown''"
| "weather_codes_get (JArr xs) = Inl (Uncaught TypeError)"
| "weather_codes_get (JObj kvs) = Inl (Uncaught TypeError)"

definition get_weather_for_location :: "env \<Rightarrow> json \<Rightarrow> json \<Rightarrow> string \<Rightarrow> Weather io" where
  "get_weather_for_location env lat lon location_name =
     (let rq = Forecast lat lon in
      (case http env rq of
         RequestError msg \<Rightarrow>
           Inl (HTTPException 503 (''Failed to fetch weather data: '' @ msg))
       | StatusError st msg \<Rightarrow>
           Inl (HTTPException 503 (''Failed to fetch weather data: '' @ msg))
       | Success None \<Rightarrow> Inl (Uncaught ValueError)
       | Success (Some data) \<Rightarrow>
           bind_err (dict_get data ''current'' (JObj [])) (\<lambda>current.
           bind_err (dict_get current ''weather_code'' (JInt 0)) (\<lambda>weather_code.
           bind_err (dict_get current ''temperature_2m'' (JInt 0)) (\<lambda>temp.
           bind_err (weather_codes_get weather_code) (\<lambda>descr.
           bind_err (dict_get current ''relative_humidity_2m'' (JInt 0)) (\<lambda>hum.
           bind_err (dict_get current ''wind_speed_10m'' (JInt 0)) (\<lambda>wind.
             new_Weather env location_name temp descr hum wind)))))),
       [rq]))"

subsection \<open>Orchestration: \<open>get_travel_summary_by_name\<close>, \<open>get_travel_summary\<close>\<close>

definition new_TravelSummary :: "Destination \<Rightarrow> Weather \<Rightarrow> string list \<Rightarrow> string \<Rightarrow> TravelSummary"
where
  "new_TravelSummary destination weather tips best_time =
     \<lparr>ts_country_code = country_code destination,
      ts_country_name = country_name destination,
      ts_capital = capital destination,
      ts_region = region destination,
      ts_population = population destination,
      ts_currencies = currencies destination,
      ts_languages = languages destination,
      current_weather = weather,
      travel_tips = tips,
      best_time_to_visit = best_time\<rparr>"

definition get_travel_summary_by_name :: "env \<Rightarrow> TravelByNameRequest \<Rightarrow> TravelSummary io" where
  "get_travel_summary_by_name env request =
     (let cname = strip (req_country_name request) in
      await (get_destinations env) (\<lambda>destinations.
        case find (name_matches cname) destinations of
          None \<Rightarrow>
            pure (Inl (HTTPException 404
              (''Country '' @ [CHR 0x27] @ cname @ [CHR 0x27]
               @ '' not found in destinations. Available countries: ''
               @ join '', '' (map country_name (take 5 destinations)) @ ''...'')))
        | Some matching_country \<Rightarrow>
            (let code = country_code matching_country in
             await (get_destination_info env code) (\<lambda>destination.
             await (get_coordinates env (capital destination) code) (\<lambda>(lat, lon).
               if lat = JNull \<or> lon = JNull then
                 pure (Inl (HTTPException 503
                   (''Could not find coordinates for '' @ capital destination)))
               else
                 await (get_weather_for_location env lat lon (capital destination))
                   (\<lambda>weather.
                     (let tips = generate_travel_tips (country_name destination)
                                   (region destination) weather;
                          best_time = get_best_time_to_visit (region destination) code
                      in pure (Inr (new_TravelSummary destination weather tips
                                      best_time)))))))))"

definition get_travel_summary :: "env \<Rightarrow> TravelRequest \<Rightarrow> TravelSummary io" where
  "get_travel_summary env request =
     (if req_country_code request = None \<or> req_country_code request = Some [] then
        pure (Inl (HTTPException 400 ''country_code is required''))
      else
        (let code = upper (the (req_country_code request)) in
         await (get_destination_info env code) (\<lambda>destination.
         await (get_coordinates env (capital destination) code) (\<lambda>(lat, lon).
           if lat = JNull \<or> lon = JNull then
             pure (Inl (HTTPException 503
               (''Could not find coordinates for '' @ capital destination)))
           else
             await (get_weather_for_location env lat lon (capital destination))
               (\<lambda>weather.
                 (let tips = generate_travel_tips (country_name destination)
                               (region destination) weather;
                      best_time = get_best_time_to_visit (region destination) code
                  in pure (Inr (new_TravelSummary destination weather tips best_time))))))))"

text \<open>
  The pipeline of both summaries in the words of the specification (section 4.5), to be
  compared with the two endpoints: get the country by its code; geocode the capital; fail
  with status 503 ("could not find coordinates for capital") if geocoding yields absent;
  fetch the weather for those coordinates; run both enrichment functions; assemble the
  summary.
\<close>

definition spec_summary_pipeline :: "env \<Rightarrow> string \<Rightarrow> TravelSummary io" where
  "spec_summary_pipeline env code =
     await (get_destination_info env code) (\<lambda>destination.
     await (get_coordinates env (capital destination) code) (\<lambda>coords.
       if fst coords = JNull \<or> snd coords = JNull then
         pure (Inl (HTTPException 503
           (''Could not find coordinates for '' @ capital destination)))
       else
         await (get_weather_for_location env (fst coords) (snd coords) (capital destination))
           (\<lambda>weather.
             pure (Inr (new_TravelSummary destination weather
               (generate_travel_tips (country_name destination) (region destination) weather)
               (get_best_time_to_visit (region destination) code))))))"

subsection \<open>Sample upstream answers\<close>

text \<open>An environment whose validation rejects every value of the wrong type.\<close>

definition reject :: "json \<Rightarrow> 'a option" where
  "reject v = None"

definition upstream :: "(request \<Rightarrow> http_result) \<Rightarrow> env" where
  "upstream h = \<lparr>http = h, lax_str = reject, lax_int = reject, lax_float = reject\<rparr>"

definition japan :: json where
  "japan = JObj
     [(''name'', JObj [(''common'', JStr ''Japan''), (''official'', JStr ''Japan'')]),
      (''cca2'', JStr ''JP''),
      (''currencies'', JObj [(''JPY'', JObj [(''name'', JStr ''Japanese yen'')])]),
      (''capital'', JArr [JStr ''Tokyo'']),
      (''region'', JStr ''Asia''),
      (''languages'', JObj [(''jpn'', JStr ''Japanese'')]),
      (''population'', JInt 125836021)]"

definition france :: json where
  "france = JObj
     [(''name'', JObj [(''common'', JStr ''France'')]),
      (''cca2'', JStr ''FR''),
      (''currencies'', JObj [(''EUR'', JObj [(''name'', JStr ''Euro'')])]),
      (''capital'', JArr [JStr ''Paris'']),
      (''region'', JStr ''Europe''),
      (''languages'', JObj [(''fra'', JStr ''French'')]),
      (''population'', JInt 67391582)]"

text \<open>A directory that knows Japan and France, with the given answers of the geocoding
  and of the weather service.\<close>

definition sample_http :: "http_result \<Rightarrow> http_result \<Rightarrow> request \<Rightarrow> http_result" where
  "sample_http geo forecast rq =
     (case rq of
        AlphaCodes codes \<Rightarrow> Success (Some (JArr [japan, france]))
      | AlphaCode code \<Rightarrow>
          (if code = ''JP'' then Success (Some (JArr [japan]))
           else if code = ''FR'' then Success (Some (JArr [france]))
           else StatusError 404 ''Client error 404 Not Found'')
      | NameSearch n \<Rightarrow> StatusError 404 ''Client error 404 Not Found''
      | GeocodingSearch city \<Rightarrow> geo
      | Forecast lat lon \<Rightarrow> forecast)"

definition tokyo_found :: http_result where
  "tokyo_found = Success (Some (JObj
     [(''results'', JArr [JObj [(''name'', JStr ''Tokyo''),
                                (''latitude'', JFloat (Finite 35.6895)),
                                (''longitude'', JFloat (Finite 139.69171))]])]))"

definition rainy_5_degrees :: http_result where
  "rainy_5_degrees = Success (Some (JObj
     [(''current'', JObj [(''temperature_2m'', JInt 5),
                          (''relative_humidity_2m'', JInt 80),
                          (''weather_code'', JInt 61),
                          (''wind_speed_10m'', JFloat (Finite 12.5))])]))"

text \<open>Services that answer every request with the same JSON body.\<close>

definition constant_http :: "json \<Rightarrow> request \<Rightarrow> http_result" where
  "constant_http body rq = Success (Some body)"

text \<open>A geocoding service whose first result has no coordinates.\<close>

definition result_without_latitude :: http_result where
  "result_without_latitude = Success (Some (JObj [(''results'', JArr [JObj []])]))"

section \<open>Properties\<close>

subsection \<open>Strings\<close>

lemma sublist_lower_iff:
  "sublist p (lower s) \<longleftrightarrow> (\<exists>u. sublist u s \<and> lower u = p)"
  unfolding lower_def
  by (metis map_mono_sublist sublist_map_rightE)

subsection \<open>Enrichment\<close>

text \<open>
  C1. The tips are, in this order: the group of the temperature band (two heat tips above
  30 degrees, two cold tips below 10, one mild tip otherwise); the umbrella tip exactly
  when some block of the description reads "rain" or "drizzle" once lowercased; the tip of
  the region exactly when the region is one of the five keys; and last the customs tip
  with the country name. For 5 degrees, "Slight rain", "Asia" and "Japan" that is the two
  cold tips, the umbrella tip, the Asia tip and the customs tip.
\<close>

theorem travel_tips_composition:
  "generate_travel_tips cname reg w =
     (if float_gt (temperature_celsius w) 30 then
        [''Pack light, breathable clothing - it's hot!'', ''Stay hydrated and use sunscreen'']
      else if float_lt (temperature_celsius w) 10 then
        [''Bring warm layers - it's cold!'', ''Pack a good jacket and warm accessories'']
      else [''Weather is mild - pack versatile clothing''])
     @ (if \<exists>u. sublist u (weather_description w) \<and> (lower u = ''rain'' \<or> lower u = ''drizzle'')
        then [''Bring an umbrella or rain jacket''] else [])
     @ (if reg = ''Europe'' then [''Consider getting a travel adapter for EU plugs'']
        else if reg = ''Asia'' then [''Learn a few local phrases - it's appreciated!'']
        else if reg = ''Oceania'' then [''Don't forget reef-safe sunscreen for beach visits'']
        else if reg = ''Americas'' then [''Check visa requirements before traveling'']
        else if reg = ''Africa'' then [''Consult a travel health clinic for vaccinations'']
        else [])
     @ [''Research local customs and etiquette for '' @ cname]
   \<and> generate_travel_tips ''Japan'' ''Asia''
        \<lparr>location = loc, temperature_celsius = Finite 5, weather_description = ''Slight rain'',
         humidity = h, wind_speed_kmh = ws\<rparr>
      = [''Bring warm layers - it's cold!'', ''Pack a good jacket and warm accessories'',
         ''Bring an umbrella or rain jacket'', ''Learn a few local phrases - it's appreciated!'',
         ''Research local customs and etiquette for Japan'']"
proof (rule conjI)
  have rain: "(sublist ''rain'' (lower (weather_description w))
               \<or> sublist ''drizzle'' (lower (weather_description w)))
      \<longleftrightarrow> (\<exists>u. sublist u (weather_description w) \<and> (lower u = ''rain'' \<or> lower u = ''drizzle''))"
    unfolding sublist_lower_iff by blast
  show "generate_travel_tips cname reg w =
     (if float_gt (temperature_celsius w) 30 then
        [''Pack light, breathable clothing - it's hot!'', ''Stay hydrated and use sunscreen'']
      else if float_lt (temperature_celsius w) 10 then
        [''Bring warm layers - it's cold!'', ''Pack a good jacket and warm accessories'']
      else [''Weather is mild - pack versatile clothing''])
     @ (if \<exists>u. sublist u (weather_description w) \<and> (lower u = ''rain'' \<or> lower u = ''drizzle'')
        then [''Bring an umbrella or rain jacket''] else [])
     @ (if reg = ''Europe'' then [''Consider getting a travel adapter for EU plugs'']
        else if reg = ''Asia'' then [''Learn a few local phrases - it's appreciated!'']
        else if reg = ''Oceania'' then [''Don't forget reef-safe sunscreen for beach visits'']
        else if reg = ''Americas'' then [''Check visa requirements before traveling'']
        else if reg = ''Africa'' then [''Consult a travel health clinic for vaccinations'']
        else [])
     @ [''Research local customs and etiquette for '' @ cname]"
    unfolding generate_travel_tips_def Let_def rain region_tips_def
    by (simp del: append.simps)
next
  show "generate_travel_tips ''Japan'' ''Asia''
        \<lparr>location = loc, temperature_celsius = Finite 5, weather_description = ''Slight rain'',
         humidity = h, wind_speed_kmh = ws\<rparr>
      = [''Bring warm layers - it's cold!'', ''Pack a good jacket and warm accessories'',
         ''Bring an umbrella or rain jacket'', ''Learn a few local phrases - it's appreciated!'',
         ''Research local customs and etiquette for Japan'']"
    by (simp add: generate_travel_tips_def region_tips_def lower_def lower_char_def
        sublist_Cons_right)
qed

theorem travel_tips_composition_witness:
  "generate_travel_tips ''France'' ''Europe''
     \<lparr>location = ''Paris'', temperature_celsius = Finite 35, weather_description = ''Clear sky'',
      humidity = 40, wind_speed_kmh = Finite 3\<rparr>
   = [''Pack light, breathable clothing - it's hot!'', ''Stay hydrated and use sunscreen'',
      ''Consider getting a travel adapter for EU plugs'',
      ''Research local customs and etiquette for France'']"
proof -
  have no: "\<not> (\<exists>u. sublist u ''Clear sky'' \<and> (lower u = ''rain'' \<or> lower u = ''drizzle''))"
  proof -
    have "\<not> (sublist ''rain'' (lower ''Clear sky'') \<or> sublist ''drizzle'' (lower ''Clear sky''))"
      by (simp add: lower_def lower_char_def sublist_Cons_right char_of_def)
    then show ?thesis unfolding sublist_lower_iff by blast
  qed
  show ?thesis
    using travel_tips_composition [of "''France''" "''Europe''"
        "\<lparr>location = ''Paris'', temperature_celsius = Finite 35,
          weather_description = ''Clear sky'', humidity = 40, wind_speed_kmh = Finite 3\<rparr>"] no
    by simp
qed

text \<open>
  C5. The table of best times has ten entries with distinct codes. For each of them the
  function returns the string stored for the code, whatever the region; for every other
  code it returns "Research the best season for " followed by the region.
\<close>

theorem best_time_table_and_fallback:
  "length best_times = 10 \<and> distinct (map fst best_times)
   \<and> (\<forall>(code, s) \<in> set best_times. \<forall>reg. get_best_time_to_visit reg code = s)
   \<and> (\<forall>code reg. code \<notin> fst ` set best_times \<longrightarrow>
         get_best_time_to_visit reg code = ''Research the best season for '' @ reg)"
proof (intro conjI allI impI)
  show "length best_times = 10" by (simp add: best_times_def)
  show "distinct (map fst best_times)" by (simp add: best_times_def)
  show "\<forall>(code, s) \<in> set best_times. \<forall>reg. get_best_time_to_visit reg code = s"
    by (simp add: get_best_time_to_visit_def best_times_def)
next
  fix code reg assume "code \<notin> fst ` set best_times"
  then have "map_of best_times code = None" by (simp add: map_of_eq_None_iff)
  then show "get_best_time_to_visit reg code = ''Research the best season for '' @ reg"
    by (simp add: get_best_time_to_visit_def)
qed

theorem best_time_table_and_fallback_witness:
  "get_best_time_to_visit ''Asia'' ''JP''
     = ''March-May (cherry blossoms) or October-November (autumn colors)''
   \<and> get_best_time_to_visit ''Europe'' ''JP''
     = ''March-May (cherry blossoms) or October-November (autumn colors)''
   \<and> get_best_time_to_visit ''Europe'' ''ZZ'' = ''Research the best season for Europe''"
proof -
  have a: "(''JP'', ''March-May (cherry blossoms) or October-November (autumn colors)'')
             \<in> set best_times"
    by (simp add: best_times_def)
  have b: "''ZZ'' \<notin> fst ` set best_times" by (simp add: best_times_def)
  from best_time_table_and_fallback a b show ?thesis by fastforce
qed

subsection \<open>Weather codes\<close>

text \<open>
  C2, as stated: the table of weather codes has exactly 16 entries. It has 19.
\<close>

theorem weather_code_table_size_counterexample:
  "card (dom (map_of weather_codes)) \<noteq> 16"
  by (simp add: weather_codes_def dom_map_of_conv_image_fst)

text \<open>
  C2, amended. The table of weather codes is a fixed table of exactly 19 entries; code 0
  is translated to "Clear sky", and every code absent from the table to "Unknown".
\<close>

theorem weather_code_table:
  "card (dom (map_of weather_codes)) = 19 \<and> length weather_codes = 19
   \<and> weather_codes_get (JInt 0) = Inr ''Clear sky''
   \<and> (\<forall>code. code \<notin> dom (map_of weather_codes) \<longrightarrow>
         weather_codes_get (JInt code) = Inr ''Unknown'')"
proof (intro conjI allI impI)
  show "card (dom (map_of weather_codes)) = 19"
    by (simp add: weather_codes_def dom_map_of_conv_image_fst)
  show "length weather_codes = 19" by (simp add: weather_codes_def)
  show "weather_codes_get (JInt 0) = Inr ''Clear sky''"
    by (simp add: weather_codes_get_int_def weather_codes_def)
next
  fix code :: int assume "code \<notin> dom (map_of weather_codes)"
  then have "map_of weather_codes code = None" by blast
  then show "weather_codes_get (JInt code) = Inr ''Unknown''"
    by (simp add: weather_codes_get_int_def)
qed

theorem weather_code_table_witness:
  "99 \<notin> dom (map_of weather_codes) \<and> weather_codes_get (JInt 99) = Inr ''Unknown''"
proof -
  have a: "99 \<notin> dom (map_of weather_codes)"
    by (simp add: weather_codes_def dom_map_of_conv_image_fst)
  with weather_code_table show ?thesis by blast
qed

subsection \<open>Geocoding\<close>

text \<open>
  C9. The result of the geocoding operation, and the request it issues, do not depend on
  its country code argument.
\<close>

theorem geocoding_ignores_country_code:
  "get_coordinates env city code1 = get_coordinates env city code2"
  by (simp add: get_coordinates_def)

subsection \<open>Sequencing and errors\<close>

lemma bind_err_Inr_iff:
  "bind_err m f = Inr y \<longleftrightarrow> (\<exists>x. m = Inr x \<and> f x = Inr y)"
  by (cases m) (simp_all add: bind_err_def)

lemma bind_err_simps:
  "bind_err (Inl e) f = Inl e" "bind_err (Inr x) f = f x"
  by (simp_all add: bind_err_def)

lemma await_simps:
  "await (Inl e, t) f = (Inl e, t)"
  "await (Inr x, t) f = (fst (f x), t @ snd (f x))"
  by (simp_all add: await_def split: prod.splits)

lemma upper_char_idem: "upper_char (upper_char c) = upper_char c"
proof (cases "97 \<le> (of_char c :: nat) \<and> (of_char c :: nat) \<le> 122")
  case True
  then have "(of_char c :: nat) - 32 < 256" by linarith
  then have "(of_char (char_of ((of_char c :: nat) - 32)) :: nat) = of_char c - 32"
    by simp
  moreover have "\<not> 97 \<le> (of_char c :: nat) - 32" using True by linarith
  ultimately show ?thesis using True by (simp add: upper_char_def Let_def)
next
  case False
  then have "upper_char c = c" by (auto simp add: upper_char_def Let_def)
  then show ?thesis by simp
qed

lemma upper_idem: "upper (upper s) = upper s"
  by (simp add: upper_def upper_char_idem)

subsection \<open>Requests without a country code, and unknown codes\<close>

text \<open>
  C6. The summary by code fails with status 400 when the code of the request is missing
  or empty, and then issues no upstream request at all; for a code that the directory
  answers with status 404 it fails with status 404, after that one request.
\<close>

theorem summary_rejects_missing_and_unknown_code:
  "(req_country_code request = None \<or> req_country_code request = Some [] \<longrightarrow>
      get_travel_summary env request
        = (Inl (HTTPException 400 ''country_code is required''), []))
   \<and> (req_country_code request = Some c \<and> c \<noteq> []
        \<and> http env (AlphaCode (upper c)) = StatusError 404 msg \<longrightarrow>
      get_travel_summary env request
        = (Inl (HTTPException 404 (''Country '' @ upper c @ '' not found'')),
           [AlphaCode (upper c)]))"
proof (intro conjI impI)
  assume "req_country_code request = None \<or> req_country_code request = Some []"
  then show "get_travel_summary env request
        = (Inl (HTTPException 400 ''country_code is required''), [])"
    by (auto simp add: get_travel_summary_def pure_def)
next
  assume a: "req_country_code request = Some c \<and> c \<noteq> []
        \<and> http env (AlphaCode (upper c)) = StatusError 404 msg"
  then have "get_destination_info env (upper c)
      = (Inl (HTTPException 404 (''Country '' @ upper c @ '' not found'')), [AlphaCode (upper c)])"
    by (simp add: get_destination_info_def Let_def upper_idem)
  with a show "get_travel_summary env request
        = (Inl (HTTPException 404 (''Country '' @ upper c @ '' not found'')),
           [AlphaCode (upper c)])"
    by (simp add: get_travel_summary_def Let_def await_simps)
qed

theorem summary_rejects_missing_and_unknown_code_witness:
  "get_travel_summary (upstream (sample_http tokyo_found rainy_5_degrees)) \<lparr>req_country_code = None\<rparr>
     = (Inl (HTTPException 400 ''country_code is required''), [])
   \<and> get_travel_summary (upstream (sample_http tokyo_found rainy_5_degrees)) \<lparr>req_country_code = Some ''''\<rparr>
     = (Inl (HTTPException 400 ''country_code is required''), [])
   \<and> get_travel_summary (upstream (sample_http tokyo_found rainy_5_degrees)) \<lparr>req_country_code = Some ''zz''\<rparr>
     = (Inl (HTTPException 404 ''Country ZZ not found''), [AlphaCode ''ZZ''])"
proof -
  have u: "upper ''zz'' = ''ZZ''" by code_simp
  have h: "http (upstream (sample_http tokyo_found rainy_5_degrees)) (AlphaCode (upper ''zz''))
       = StatusError 404 ''Client error 404 Not Found''"
    by (simp add: u upstream_def sample_http_def)
  show ?thesis
    using summary_rejects_missing_and_unknown_code
            [of "\<lparr>req_country_code = None\<rparr>" "upstream (sample_http tokyo_found rainy_5_degrees)"]
          summary_rejects_missing_and_unknown_code
            [of "\<lparr>req_country_code = Some ''''\<rparr>" "upstream (sample_http tokyo_found rainy_5_degrees)"]
          summary_rejects_missing_and_unknown_code
            [where request = "\<lparr>req_country_code = Some ''zz''\<rparr>" and c = "''zz''"
               and env = "upstream (sample_http tokyo_found rainy_5_degrees)"
               and msg = "''Client error 404 Not Found''"]
          h u
    by simp
qed

(* C8 *)

subsection \<open>Destinations built from upstream records\<close>

lemma those_length: "those xs = Some ys \<Longrightarrow> length ys = length xs"
  by (induction xs arbitrary: ys) (auto split: option.splits)

lemma validate_str_list_length:
  "validate_str_list env vs = Some ss \<Longrightarrow> length ss = length vs"
  unfolding validate_str_list_def by (drule those_length) simp

lemma validate_str_list_placeholder:
  "validate_str_list env [JStr s] = Some ss \<Longrightarrow> ss = [s]"
  by (simp add: validate_str_list_def)

lemma new_Destination_fields:
  assumes "new_Destination env cc cn cap reg pop curs langs = Inr d"
  shows "validate_str env cc = Some (country_code d)"
    and "validate_str_list env curs = Some (currencies d)"
    and "validate_str_list env langs = Some (languages d)"
  using assms
  by (auto simp add: new_Destination_def split: option.splits)

lemma dict_keys_nonempty: "truthy c \<Longrightarrow> dict_keys c = Inr ks \<Longrightarrow> ks \<noteq> []"
  by (cases c) auto

lemma dict_values_nonempty: "truthy c \<Longrightarrow> dict_values c = Inr ks \<Longrightarrow> ks \<noteq> []"
  by (cases c) auto

lemma dict_get_default_irrelevant:
  "dict_get c k d1 = Inr v \<Longrightarrow> dict_get c k d2 = Inr w \<Longrightarrow> truthy v \<Longrightarrow> \<not> truthy d1 \<Longrightarrow> w = v"
  by (cases c) (auto split: option.splits)

lemma build_destination_lists:
  assumes "build_destination env country = Inr d"
  shows "currencies d \<noteq> [] \<and> languages d \<noteq> []
     \<and> (\<forall>v. dict_get country ''currencies'' JNull = Inr v \<longrightarrow> \<not> truthy v \<longrightarrow> currencies d = [''N/A''])
     \<and> (\<forall>v. dict_get country ''languages'' JNull = Inr v \<longrightarrow> \<not> truthy v \<longrightarrow> languages d = [''N/A''])"
proof -
  from assms obtain c curs l langs cc cn cap reg pop where
    c: "dict_get country ''currencies'' JNull = Inr c"
    and curs: "(if truthy c then bind_err (dict_get country ''currencies'' (JObj [])) dict_keys
               else Inr [JStr ''N/A'']) = Inr curs"
    and l: "dict_get country ''languages'' JNull = Inr l"
    and langs: "(if truthy l then bind_err (dict_get country ''languages'' (JObj [])) dict_values
               else Inr [JStr ''N/A'']) = Inr langs"
    and nd: "new_Destination env cc cn cap reg pop curs langs = Inr d"
    unfolding build_destination_def bind_err_Inr_iff by blast
  have vc: "validate_str_list env curs = Some (currencies d)"
    and vl: "validate_str_list env langs = Some (languages d)"
    using new_Destination_fields[OF nd] by simp_all
  have c1: "curs \<noteq> []" "\<not> truthy c \<Longrightarrow> curs = [JStr ''N/A'']"
    using curs c by (auto simp: bind_err_Inr_iff dest: dict_get_default_irrelevant dict_keys_nonempty split: if_splits)
  have l1: "langs \<noteq> []" "\<not> truthy l \<Longrightarrow> langs = [JStr ''N/A'']"
    using langs l by (auto simp: bind_err_Inr_iff dest: dict_get_default_irrelevant dict_values_nonempty split: if_splits)
  have "currencies d \<noteq> []" using validate_str_list_length[OF vc] c1(1) by auto
  moreover have "languages d \<noteq> []" using validate_str_list_length[OF vl] l1(1) by auto
  moreover have "\<not> truthy c \<Longrightarrow> currencies d = [''N/A'']"
    using c1(2) vc validate_str_list_placeholder by metis
  moreover have "\<not> truthy l \<Longrightarrow> languages d = [''N/A'']"
    using l1(2) vl validate_str_list_placeholder by metis
  ultimately show ?thesis using c l by auto
qed

lemma destinations_loop_all2:
  "destinations_loop env acc cs = Inr ds \<Longrightarrow>
   \<exists>ds'. ds = acc @ ds' \<and> list_all2 (\<lambda>c d. build_destination env c = Inr d) cs ds'"
proof (induction cs arbitrary: acc)
  case Nil
  then show ?case by simp
next
  case (Cons c cs)
  from Cons.prems obtain d where b: "build_destination env c = Inr d"
    and r: "destinations_loop env (acc @ [d]) cs = Inr ds"
    by (auto simp: bind_err_Inr_iff)
  from Cons.IH[OF r] obtain ds' where "ds = (acc @ [d]) @ ds'"
    and "list_all2 (\<lambda>c d. build_destination env c = Inr d) cs ds'" by blast
  with b show ?case by auto
qed

lemma subscript0_array: "subscript0 (JArr xs) = Inr c \<longleftrightarrow> (\<exists>rest. xs = c # rest)"
  by (cases xs) auto

lemma get_destination_info_build:
  assumes "get_destination_info env code = (Inr d, t)"
  shows "\<exists>body c. http env (AlphaCode (upper code)) = Success (Some body)
           \<and> (case body of JArr xs \<Rightarrow> subscript0 body | _ \<Rightarrow> Inr body) = Inr c
           \<and> build_destination env c = Inr d"
proof (cases "http env (AlphaCode (upper code))")
  case (RequestError msg)
  with assms show ?thesis by (simp add: get_destination_info_def Let_def)
next
  case (StatusError st msg)
  with assms show ?thesis by (simp add: get_destination_info_def Let_def split: if_splits)
next
  case (Success b)
  show ?thesis
  proof (cases b)
    case None
    with Success assms show ?thesis by (simp add: get_destination_info_def Let_def)
  next
    case (Some body)
    with Success assms have
      "bind_err (case body of JArr xs \<Rightarrow> subscript0 body | _ \<Rightarrow> Inr body)
         (build_destination env) = Inr d"
      by (simp add: get_destination_info_def Let_def)
    then obtain c where "(case body of JArr xs \<Rightarrow> subscript0 body | _ \<Rightarrow> Inr body) = Inr c"
      and "build_destination env c = Inr d"
      unfolding bind_err_Inr_iff by blast
    with Success Some show ?thesis by blast
  qed
qed

lemma get_destinations_build:
  assumes "get_destinations env = (Inr ds, t)"
  shows "\<exists>body cs. http env (AlphaCodes (join '','' popular_codes)) = Success (Some body)
           \<and> iterate body = Inr cs
           \<and> list_all2 (\<lambda>c d. build_destination env c = Inr d) cs ds"
  using assms
  by (auto simp add: get_destinations_def Let_def bind_err_Inr_iff
      split: http_result.splits option.splits dest!: destinations_loop_all2)

lemma info_lists_nonempty:
  assumes "get_destination_info env code = (Inr d, t)"
  shows "currencies d \<noteq> [] \<and> languages d \<noteq> []"
proof -
  from get_destination_info_build[OF assms] obtain c where "build_destination env c = Inr d"
    by blast
  from build_destination_lists[OF this] show ?thesis by blast
qed

lemma destinations_lists_nonempty:
  assumes "get_destinations env = (Inr ds, t)"
  shows "\<forall>x \<in> set ds. currencies x \<noteq> [] \<and> languages x \<noteq> []"
proof
  from get_destinations_build[OF assms] obtain cs' where
    l: "list_all2 (\<lambda>c d. build_destination env c = Inr d) cs' ds" by blast
  fix x assume "x \<in> set ds"
  then obtain i where i: "i < length ds" "ds ! i = x" by (auto simp: in_set_conv_nth)
  with l have "build_destination env (cs' ! i) = Inr x"
    by (auto simp: list_all2_conv_all_nth)
  from build_destination_lists[OF this]
  show "currencies x \<noteq> [] \<and> languages x \<noteq> []" by blast
qed

lemma info_placeholder:
  assumes "get_destination_info env code = (Inr d, t)"
    and "http env (AlphaCode (upper code)) = Success (Some (JObj kvs))
           \<or> http env (AlphaCode (upper code)) = Success (Some (JArr (JObj kvs # rest)))"
  shows "(\<not> truthy (case map_of kvs ''currencies'' of None \<Rightarrow> JNull | Some v \<Rightarrow> v) \<longrightarrow>
           currencies d = [''N/A''])
        \<and> (\<not> truthy (case map_of kvs ''languages'' of None \<Rightarrow> JNull | Some v \<Rightarrow> v) \<longrightarrow>
           languages d = [''N/A''])"
proof -
  have "build_destination env (JObj kvs) = Inr d"
    using get_destination_info_build[OF assms(1)] assms(2) by (auto simp: subscript0_array)
  from build_destination_lists[OF this] show ?thesis by simp
qed

lemma destinations_placeholder:
  assumes "get_destinations env = (Inr ds, t)"
    and "http env (AlphaCodes (join '','' popular_codes)) = Success (Some (JArr cs))"
  shows "length ds = length cs
        \<and> (\<forall>i < length cs. \<forall>kvs. cs ! i = JObj kvs \<longrightarrow>
             (\<not> truthy (case map_of kvs ''currencies'' of None \<Rightarrow> JNull | Some v \<Rightarrow> v) \<longrightarrow>
                currencies (ds ! i) = [''N/A''])
             \<and> (\<not> truthy (case map_of kvs ''languages'' of None \<Rightarrow> JNull | Some v \<Rightarrow> v) \<longrightarrow>
                languages (ds ! i) = [''N/A'']))"
proof -
  have l: "list_all2 (\<lambda>c d. build_destination env c = Inr d) cs ds"
    using get_destinations_build[OF assms(1)] assms(2) by auto
  then have len: "length ds = length cs" by (simp add: list_all2_lengthD)
  have "\<forall>i < length cs. \<forall>kvs. cs ! i = JObj kvs \<longrightarrow>
             (\<not> truthy (case map_of kvs ''currencies'' of None \<Rightarrow> JNull | Some v \<Rightarrow> v) \<longrightarrow>
                currencies (ds ! i) = [''N/A''])
             \<and> (\<not> truthy (case map_of kvs ''languages'' of None \<Rightarrow> JNull | Some v \<Rightarrow> v) \<longrightarrow>
                languages (ds ! i) = [''N/A''])"
  proof (intro allI impI)
    fix i kvs assume i: "i < length cs" and c: "cs ! i = JObj kvs"
    with l have "build_destination env (JObj kvs) = Inr (ds ! i)"
      by (auto simp: list_all2_conv_all_nth)
    from build_destination_lists[OF this]
    show "(\<not> truthy (case map_of kvs ''currencies'' of None \<Rightarrow> JNull | Some v \<Rightarrow> v) \<longrightarrow>
                currencies (ds ! i) = [''N/A''])
             \<and> (\<not> truthy (case map_of kvs ''languages'' of None \<Rightarrow> JNull | Some v \<Rightarrow> v) \<longrightarrow>
                languages (ds ! i) = [''N/A''])"
      by simp
  qed
  with len show ?thesis by blast
qed

lemma empty_record_destination:
  "get_destination_info (upstream (constant_http (JObj []))) ''JP''
     = (Inr \<lparr>country_code = '''', country_name = ''Unknown'', capital = ''N/A'',
             region = ''Unknown'', population = 0, currencies = [''N/A''],
             languages = [''N/A'']\<rparr>, [AlphaCode ''JP''])"
  by (simp add: get_destination_info_def upstream_def constant_http_def Let_def
      upper_def upper_char_def build_destination_def bind_err_simps new_Destination_def
      validate_int_def validate_str_list_def)

lemma one_empty_record_destinations:
  "get_destinations (upstream (constant_http (JArr [JObj []])))
     = (Inr [\<lparr>country_code = '''', country_name = ''Unknown'', capital = ''N/A'',
             region = ''Unknown'', population = 0, currencies = [''N/A''],
             languages = [''N/A'']\<rparr>], [AlphaCodes ''JP,FR,IT,ES,TH,AU,GB,DE,NZ,CA''])"
  by (simp add: get_destinations_def upstream_def constant_http_def Let_def popular_codes_def
      build_destination_def bind_err_simps new_Destination_def
      validate_int_def validate_str_list_def)

lemma japan_destination:
  "get_destination_info (upstream (sample_http geo fc)) ''jp''
     = (Inr \<lparr>country_code = ''JP'', country_name = ''Japan'', capital = ''Tokyo'',
             region = ''Asia'', population = 125836021, currencies = [''JPY''],
             languages = [''Japanese'']\<rparr>, [AlphaCode ''JP''])"
proof -
  have u: "upper ''jp'' = ''JP''" by code_simp
  show ?thesis
    by (simp add: get_destination_info_def upstream_def sample_http_def japan_def Let_def
        u build_destination_def bind_err_simps new_Destination_def
        validate_int_def validate_str_list_def)
qed

lemma sample_destinations:
  "get_destinations (upstream (sample_http geo fc))
     = (Inr [\<lparr>country_code = ''JP'', country_name = ''Japan'', capital = ''Tokyo'',
             region = ''Asia'', population = 125836021, currencies = [''JPY''],
             languages = [''Japanese'']\<rparr>,
             \<lparr>country_code = ''FR'', country_name = ''France'', capital = ''Paris'',
             region = ''Europe'', population = 67391582, currencies = [''EUR''],
             languages = [''French'']\<rparr>], [AlphaCodes ''JP,FR,IT,ES,TH,AU,GB,DE,NZ,CA''])"
  by (simp add: get_destinations_def upstream_def sample_http_def Let_def popular_codes_def
      japan_def france_def
      build_destination_def bind_err_simps new_Destination_def
      validate_int_def validate_str_list_def)

lemma build_destination_cca2:
  assumes "build_destination env (JObj kvs) = Inr d"
  shows "validate_str env (case map_of kvs ''cca2'' of None \<Rightarrow> JStr [] | Some v \<Rightarrow> v)
           = Some (country_code d)"
proof -
  from assms obtain cc cn cap reg pop curs langs where
    cc: "dict_get (JObj kvs) ''cca2'' (JStr []) = Inr cc"
    and nd: "new_Destination env cc cn cap reg pop curs langs = Inr d"
    unfolding build_destination_def bind_err_Inr_iff by blast
  from new_Destination_fields(1)[OF nd] cc show ?thesis by auto
qed

text \<open>
  C8. Every destination returned by the lookup of one country or by the list of popular
  destinations has non-empty lists of currencies and of languages; where the upstream
  record has no such member, or a falsy one, the list is the single placeholder "N/A".
\<close>

theorem destination_lists_never_empty:
  "(get_destination_info env code = (Inr d, t) \<longrightarrow> currencies d \<noteq> [] \<and> languages d \<noteq> [])
   \<and> (get_destinations env = (Inr ds, t') \<longrightarrow>
        (\<forall>x \<in> set ds. currencies x \<noteq> [] \<and> languages x \<noteq> []))
   \<and> (get_destination_info env code = (Inr d, t)
        \<and> (http env (AlphaCode (upper code)) = Success (Some (JObj kvs))
           \<or> http env (AlphaCode (upper code)) = Success (Some (JArr (JObj kvs # rest)))) \<longrightarrow>
        (\<not> truthy (case map_of kvs ''currencies'' of None \<Rightarrow> JNull | Some v \<Rightarrow> v) \<longrightarrow>
           currencies d = [''N/A''])
        \<and> (\<not> truthy (case map_of kvs ''languages'' of None \<Rightarrow> JNull | Some v \<Rightarrow> v) \<longrightarrow>
           languages d = [''N/A'']))
   \<and> (get_destinations env = (Inr ds, t')
        \<and> http env (AlphaCodes (join '','' popular_codes)) = Success (Some (JArr cs)) \<longrightarrow>
        length ds = length cs
        \<and> (\<forall>i < length cs. \<forall>kvs'. cs ! i = JObj kvs' \<longrightarrow>
             (\<not> truthy (case map_of kvs' ''currencies'' of None \<Rightarrow> JNull | Some v \<Rightarrow> v) \<longrightarrow>
                currencies (ds ! i) = [''N/A''])
             \<and> (\<not> truthy (case map_of kvs' ''languages'' of None \<Rightarrow> JNull | Some v \<Rightarrow> v) \<longrightarrow>
                languages (ds ! i) = [''N/A''])))"
  using info_lists_nonempty[of env code d t] destinations_lists_nonempty[of env ds t']
    info_placeholder[of env code d t kvs rest] destinations_placeholder[of env ds t' cs]
  by (intro conjI) blast+

theorem destination_lists_never_empty_witness:
  "currencies \<lparr>country_code = '''', country_name = ''Unknown'', capital = ''N/A'',
             region = ''Unknown'', population = 0, currencies = [''N/A''],
             languages = [''N/A'']\<rparr> \<noteq> []
   \<and> get_destination_info (upstream (constant_http (JObj []))) ''JP''
     = (Inr \<lparr>country_code = '''', country_name = ''Unknown'', capital = ''N/A'',
             region = ''Unknown'', population = 0, currencies = [''N/A''],
             languages = [''N/A'']\<rparr>, [AlphaCode ''JP''])
   \<and> get_destinations (upstream (constant_http (JArr [JObj []])))
     = (Inr [\<lparr>country_code = '''', country_name = ''Unknown'', capital = ''N/A'',
             region = ''Unknown'', population = 0, currencies = [''N/A''],
             languages = [''N/A'']\<rparr>], [AlphaCodes ''JP,FR,IT,ES,TH,AU,GB,DE,NZ,CA''])"
proof -
  have u: "upper ''JP'' = ''JP''" by code_simp
  have h1: "http (upstream (constant_http (JObj []))) (AlphaCode (upper ''JP''))
              = Success (Some (JObj []))"
    by (simp add: upstream_def constant_http_def)
  have h2: "http (upstream (constant_http (JArr [JObj []])))
              (AlphaCodes (join '','' popular_codes)) = Success (Some (JArr [JObj []]))"
    by (simp add: upstream_def constant_http_def)
  show ?thesis
    using destination_lists_never_empty
      [where env = "upstream (constant_http (JObj []))" and code = "''JP''"
         and d = "\<lparr>country_code = '''', country_name = ''Unknown'', capital = ''N/A'',
             region = ''Unknown'', population = 0, currencies = [''N/A''],
             languages = [''N/A'']\<rparr>" and t = "[AlphaCode ''JP'']" and kvs = "[]"
         and ds = "[]" and t' = "[]" and cs = "[]"]
      destination_lists_never_empty
      [where env = "upstream (constant_http (JArr [JObj []]))" and code = "''JP''"
         and ds = "[\<lparr>country_code = '''', country_name = ''Unknown'', capital = ''N/A'',
             region = ''Unknown'', population = 0, currencies = [''N/A''],
             languages = [''N/A'']\<rparr>]"
         and t' = "[AlphaCodes ''JP,FR,IT,ES,TH,AU,GB,DE,NZ,CA'']" and cs = "[JObj []]"]
      empty_record_destination one_empty_record_destinations h1 h2
    by simp
qed

text \<open>
  C7, as stated: the country code of the destination returned for a popular code is that
  code, up to letter case. The code copies the member "cca2" of the upstream record: a
  directory that answers the lookup of "JP" with an empty record yields the empty code.
\<close>

theorem country_code_round_trip_counterexample:
  "get_destination_info (upstream (constant_http (JObj []))) ''JP''
     = (Inr \<lparr>country_code = '''', country_name = ''Unknown'', capital = ''N/A'',
             region = ''Unknown'', population = 0, currencies = [''N/A''],
             languages = [''N/A'']\<rparr>, [AlphaCode ''JP''])
   \<and> ''JP'' \<in> set popular_codes
   \<and> upper (country_code \<lparr>country_code = '''', country_name = ''Unknown'', capital = ''N/A'',
             region = ''Unknown'', population = 0, currencies = [''N/A''],
             languages = [''N/A'']\<rparr>) \<noteq> upper ''JP''"
  by (simp add: get_destination_info_def upstream_def constant_http_def Let_def
      upper_def upper_char_def build_destination_def bind_err_simps new_Destination_def
      validate_int_def validate_str_list_def popular_codes_def)

text \<open>
  C7, amended. The country code of the destination returned for a code is the member
  "cca2" of the upstream record (the record itself, or the first element of the array
  returned), and the empty string when the record has no such member; so it equals the
  requested code up to letter case whenever the upstream "cca2" does.
\<close>

theorem country_code_is_upstream_cca2:
  "get_destination_info env code = (Inr d, t)
   \<and> (http env (AlphaCode (upper code)) = Success (Some (JObj kvs))
      \<or> http env (AlphaCode (upper code)) = Success (Some (JArr (JObj kvs # rest))))
   \<longrightarrow> (\<forall>c. map_of kvs ''cca2'' = Some (JStr c) \<longrightarrow>
          country_code d = c \<and> (upper c = upper code \<longrightarrow> upper (country_code d) = upper code))
     \<and> (map_of kvs ''cca2'' = None \<longrightarrow> country_code d = [])"
proof
  assume a: "get_destination_info env code = (Inr d, t)
   \<and> (http env (AlphaCode (upper code)) = Success (Some (JObj kvs))
      \<or> http env (AlphaCode (upper code)) = Success (Some (JArr (JObj kvs # rest))))"
  then have "build_destination env (JObj kvs) = Inr d"
    using get_destination_info_build[of env code d t] by (auto simp: subscript0_array)
  from build_destination_cca2[OF this]
  show "(\<forall>c. map_of kvs ''cca2'' = Some (JStr c) \<longrightarrow>
          country_code d = c \<and> (upper c = upper code \<longrightarrow> upper (country_code d) = upper code))
     \<and> (map_of kvs ''cca2'' = None \<longrightarrow> country_code d = [])"
    by auto
qed

theorem country_code_is_upstream_cca2_witness:
  "get_destination_info (upstream (sample_http tokyo_found rainy_5_degrees)) ''jp''
     = (Inr \<lparr>country_code = ''JP'', country_name = ''Japan'', capital = ''Tokyo'',
             region = ''Asia'', population = 125836021, currencies = [''JPY''],
             languages = [''Japanese'']\<rparr>, [AlphaCode ''JP''])
   \<and> upper ''JP'' = upper ''jp''"
proof -
  have u: "upper ''jp'' = ''JP''" "upper ''JP'' = ''JP''" by code_simp+
  have h: "http (upstream (sample_http tokyo_found rainy_5_degrees)) (AlphaCode (upper ''jp''))
     = Success (Some (JArr (JObj
        [(''name'', JObj [(''common'', JStr ''Japan''), (''official'', JStr ''Japan'')]),
      (''cca2'', JStr ''JP''),
      (''currencies'', JObj [(''JPY'', JObj [(''name'', JStr ''Japanese yen'')])]),
      (''capital'', JArr [JStr ''Tokyo'']),
      (''region'', JStr ''Asia''),
      (''languages'', JObj [(''jpn'', JStr ''Japanese'')]),
      (''population'', JInt 125836021)] # [])))"
    by (simp add: u upstream_def sample_http_def japan_def)
  have c: "map_of [(''name'', JObj [(''common'', JStr ''Japan''), (''official'', JStr ''Japan'')]),
      (''cca2'', JStr ''JP''),
      (''currencies'', JObj [(''JPY'', JObj [(''name'', JStr ''Japanese yen'')])]),
      (''capital'', JArr [JStr ''Tokyo'']),
      (''region'', JStr ''Asia''),
      (''languages'', JObj [(''jpn'', JStr ''Japanese'')]),
      (''population'', JInt 125836021)] ''cca2'' = Some (JStr ''JP'')"
    by simp
  from country_code_is_upstream_cca2
      [where env = "upstream (sample_http tokyo_found rainy_5_degrees)" and code = "''jp''"
         and d = "\<lparr>country_code = ''JP'', country_name = ''Japan'', capital = ''Tokyo'',
             region = ''Asia'', population = 125836021, currencies = [''JPY''],
             languages = [''Japanese'']\<rparr>" and t = "[AlphaCode ''JP'']" and rest = "[]"
         and kvs = "[(''name'', JObj [(''common'', JStr ''Japan''), (''official'', JStr ''Japan'')]),
      (''cca2'', JStr ''JP''),
      (''currencies'', JObj [(''JPY'', JObj [(''name'', JStr ''Japanese yen'')])]),
      (''capital'', JArr [JStr ''Tokyo'']),
      (''region'', JStr ''Asia''),
      (''languages'', JObj [(''jpn'', JStr ''Japanese'')]),
      (''population'', JInt 125836021)]"]
    japan_destination[of tokyo_found rainy_5_degrees] h c u
  show ?thesis by simp
qed

subsection \<open>The two summaries and the pipeline of the specification\<close>

lemma snd_await:
  "snd (await m f) = (case fst m of Inl e \<Rightarrow> snd m | Inr x \<Rightarrow> snd m @ snd (f x))"
  by (cases m) (auto simp add: await_def split: sum.splits prod.splits)

lemma trace_simps:
  "snd (get_destinations env) = [AlphaCodes (join '','' popular_codes)]"
  "snd (get_destination_info env code) = [AlphaCode (upper code)]"
  "snd (get_coordinates env city code) = [GeocodingSearch city]"
  "snd (get_weather_for_location env lat lon name) = [Forecast lat lon]"
  "snd (pure r) = []"
  by (simp_all add: get_destinations_def get_destination_info_def get_coordinates_def
      get_weather_for_location_def pure_def Let_def)

lemma by_code_is_pipeline:
  assumes "req_country_code creq = Some c" and "c \<noteq> []"
  shows "get_travel_summary env creq = spec_summary_pipeline env (upper c)"
  using assms
  unfolding get_travel_summary_def spec_summary_pipeline_def Let_def split_def
  by (simp cong del: if_weak_cong)

lemma by_name_hit:
  assumes "get_destinations env = (Inr ds, tr)"
    and "find (name_matches (strip (req_country_name request))) ds = Some m"
  shows "get_travel_summary_by_name env request
     = (fst (spec_summary_pipeline env (country_code m)),
        tr @ snd (spec_summary_pipeline env (country_code m)))"
  using assms
  unfolding get_travel_summary_by_name_def spec_summary_pipeline_def Let_def split_def
  by (simp add: await_simps)

lemma by_name_miss:
  assumes "get_destinations env = (Inr ds, tr)"
    and "find (name_matches (strip (req_country_name request))) ds = None"
  shows "get_travel_summary_by_name env request
     = (Inl (HTTPException 404
         (''Country '' @ [CHR 0x27] @ strip (req_country_name request) @ [CHR 0x27]
          @ '' not found in destinations. Available countries: ''
          @ join '', '' (map country_name (take 5 ds)) @ ''...'')), tr)"
  using assms
  by (simp add: get_travel_summary_by_name_def Let_def await_simps pure_def)

lemma pipeline_no_name_search:
  "NameSearch s \<notin> set (snd (spec_summary_pipeline env code))"
  by (auto simp add: spec_summary_pipeline_def snd_await trace_simps split: sum.splits)

lemma by_name_no_name_search:
  "NameSearch s \<notin> set (snd (get_travel_summary_by_name env request))"
proof (cases "get_destinations env")
  case (Pair r tr)
  have tr: "tr = [AlphaCodes (join '','' popular_codes)]"
    using trace_simps(1)[of env] Pair by simp
  show ?thesis
  proof (cases r)
    case (Inl e)
    with Pair tr show ?thesis
      by (simp add: get_travel_summary_by_name_def Let_def await_simps)
  next
    case (Inr ds)
    show ?thesis
    proof (cases "find (name_matches (strip (req_country_name request))) ds")
      case None
      from by_name_miss[OF _ None] Pair Inr tr show ?thesis by simp
    next
      case (Some m)
      from by_name_hit[OF _ Some] Pair Inr tr pipeline_no_name_search[of s env "country_code m"]
      show ?thesis by simp
    qed
  qed
qed

text \<open>The standalone search, by contrast, asks the directory when the list has no match.\<close>

lemma search_by_name_falls_back:
  assumes "get_destinations env = (Inr ds, tr)"
    and "find (name_matches country) ds = None"
  shows "snd (search_destination_by_name env country) = tr @ [NameSearch country]"
  using assms
  by (simp add: search_destination_by_name_def Let_def await_simps)

lemma name_matches_iff:
  "name_matches n d \<longleftrightarrow>
     (\<exists>u. sublist u (country_name d) \<and> lower u = lower n)
     \<or> (\<exists>u. sublist u n \<and> lower u = lower (country_name d))"
  unfolding name_matches_def sublist_lower_iff ..

lemma japan_destination_upper:
  assumes "upper code = ''JP''"
  shows "get_destination_info (upstream (sample_http geo fc)) code
     = (Inr \<lparr>country_code = ''JP'', country_name = ''Japan'', capital = ''Tokyo'',
             region = ''Asia'', population = 125836021, currencies = [''JPY''],
             languages = [''Japanese'']\<rparr>, [AlphaCode ''JP''])"
  by (simp add: get_destination_info_def upstream_def sample_http_def japan_def Let_def
      assms build_destination_def bind_err_simps new_Destination_def
      validate_int_def validate_str_list_def)

lemma find_japan:
  "find (name_matches (strip ''  japan ''))
     [\<lparr>country_code = ''JP'', country_name = ''Japan'', capital = ''Tokyo'',
             region = ''Asia'', population = 125836021, currencies = [''JPY''],
             languages = [''Japanese'']\<rparr>,
             \<lparr>country_code = ''FR'', country_name = ''France'', capital = ''Paris'',
             region = ''Europe'', population = 67391582, currencies = [''EUR''],
             languages = [''French'']\<rparr>]
   = Some \<lparr>country_code = ''JP'', country_name = ''Japan'', capital = ''Tokyo'',
             region = ''Asia'', population = 125836021, currencies = [''JPY''],
             languages = [''Japanese'']\<rparr>"
proof -
  have s: "strip ''  japan '' = ''japan''" by code_simp
  have l: "lower ''japan'' = ''japan''" "lower ''Japan'' = ''japan''" by code_simp+
  show ?thesis by (simp add: s l name_matches_def)
qed

lemma find_atlantis:
  "find (name_matches (strip ''Atlantis''))
     [\<lparr>country_code = ''JP'', country_name = ''Japan'', capital = ''Tokyo'',
             region = ''Asia'', population = 125836021, currencies = [''JPY''],
             languages = [''Japanese'']\<rparr>,
             \<lparr>country_code = ''FR'', country_name = ''France'', capital = ''Paris'',
             region = ''Europe'', population = 67391582, currencies = [''EUR''],
             languages = [''French'']\<rparr>]
   = None"
proof -
  have s: "strip ''Atlantis'' = ''Atlantis''" by code_simp
  have l: "lower ''Atlantis'' = ''atlantis''" "lower ''Japan'' = ''japan''"
    "lower ''France'' = ''france''" by code_simp+
  show ?thesis by (simp add: s l name_matches_def sublist_Cons_right)
qed

lemma tokyo_coordinates:
  "get_coordinates (upstream (sample_http tokyo_found fc)) ''Tokyo'' code
     = (Inr (JFloat (Finite 35.6895), JFloat (Finite 139.69171)), [GeocodingSearch ''Tokyo''])"
  by (simp add: get_coordinates_def upstream_def sample_http_def tokyo_found_def Let_def
      bind_err_simps)

lemma rainy_weather:
  "get_weather_for_location (upstream (sample_http geo rainy_5_degrees)) lat lon ''Tokyo''
     = (Inr \<lparr>location = ''Tokyo'', temperature_celsius = Finite 5,
             weather_description = ''Slight rain'', humidity = 80,
             wind_speed_kmh = Finite 12.5\<rparr>, [Forecast lat lon])"
  by (simp add: get_weather_for_location_def upstream_def sample_http_def rainy_5_degrees_def
      Let_def bind_err_simps new_Weather_def validate_int_def validate_float_def
      weather_codes_get_int_def weather_codes_def)

lemma sample_pipeline:
  "spec_summary_pipeline (upstream (sample_http tokyo_found rainy_5_degrees)) ''JP''
   = (Inr \<lparr>ts_country_code = ''JP'', ts_country_name = ''Japan'', ts_capital = ''Tokyo'',
           ts_region = ''Asia'', ts_population = 125836021, ts_currencies = [''JPY''],
           ts_languages = [''Japanese''],
           current_weather = \<lparr>location = ''Tokyo'', temperature_celsius = Finite 5,
             weather_description = ''Slight rain'', humidity = 80,
             wind_speed_kmh = Finite 12.5\<rparr>,
           travel_tips = [''Bring warm layers - it's cold!'',
             ''Pack a good jacket and warm accessories'', ''Bring an umbrella or rain jacket'',
             ''Learn a few local phrases - it's appreciated!'',
             ''Research local customs and etiquette for Japan''],
           best_time_to_visit
             = ''March-May (cherry blossoms) or October-November (autumn colors)''\<rparr>,
      [AlphaCode ''JP'', GeocodingSearch ''Tokyo'',
       Forecast (JFloat (Finite 35.6895)) (JFloat (Finite 139.69171))])"
proof -
  have u: "upper ''JP'' = ''JP''" by code_simp
  have tips: "\<And>ws. generate_travel_tips ''Japan'' ''Asia''
        \<lparr>location = ''Tokyo'', temperature_celsius = Finite 5, weather_description = ''Slight rain'',
         humidity = 80, wind_speed_kmh = ws\<rparr>
      = [''Bring warm layers - it's cold!'', ''Pack a good jacket and warm accessories'',
         ''Bring an umbrella or rain jacket'', ''Learn a few local phrases - it's appreciated!'',
         ''Research local customs and etiquette for Japan'']"
    by (simp add: generate_travel_tips_def region_tips_def lower_def lower_char_def
        sublist_Cons_right)
  have bt: "get_best_time_to_visit ''Asia'' ''JP''
      = ''March-May (cherry blossoms) or October-November (autumn colors)''"
    by (simp add: get_best_time_to_visit_def best_times_def)
  show ?thesis
    unfolding spec_summary_pipeline_def
    by (simp add: japan_destination_upper[OF u] tokyo_coordinates rainy_weather await_simps
        pure_def new_TravelSummary_def tips bt)
qed

text \<open>
  C4. The summary by name strips its input and takes the first destination of the popular
  list whose name contains the input, or is contained in it, letter case aside. On a miss
  it fails with status 404 and a message that lists the first five names of the list; on
  a hit it is the pipeline of the specification run on the code of the matched
  destination, which is also what the summary by code runs on its uppercased code. It
  never issues a name search upstream.
\<close>

theorem summary_by_name_pipeline:
  "(name_matches n dest \<longleftrightarrow>
      (\<exists>u. sublist u (country_name dest) \<and> lower u = lower n)
      \<or> (\<exists>u. sublist u n \<and> lower u = lower (country_name dest)))
   \<and> (get_destinations env = (Inr ds, tr)
        \<and> find (name_matches (strip (req_country_name request))) ds = None \<longrightarrow>
      get_travel_summary_by_name env request
        = (Inl (HTTPException 404
             (''Country '' @ [CHR 0x27] @ strip (req_country_name request) @ [CHR 0x27]
              @ '' not found in destinations. Available countries: ''
              @ join '', '' (map country_name (take 5 ds)) @ ''...'')), tr))
   \<and> (get_destinations env = (Inr ds, tr)
        \<and> find (name_matches (strip (req_country_name request))) ds = Some m \<longrightarrow>
      get_travel_summary_by_name env request
        = (fst (spec_summary_pipeline env (country_code m)),
           tr @ snd (spec_summary_pipeline env (country_code m))))
   \<and> (req_country_code creq = Some c \<and> c \<noteq> [] \<longrightarrow>
      get_travel_summary env creq = spec_summary_pipeline env (upper c))
   \<and> NameSearch s \<notin> set (snd (get_travel_summary_by_name env request))"
  using name_matches_iff[of n dest] by_name_miss[of env ds tr request]
    by_name_hit[of env ds tr request m] by_code_is_pipeline[of creq c env]
    by_name_no_name_search[of s env request]
  by (intro conjI) blast+

theorem summary_by_name_pipeline_witness:
  "get_travel_summary_by_name (upstream (sample_http tokyo_found rainy_5_degrees))
      \<lparr>req_country_name = ''  japan ''\<rparr>
   = (Inr \<lparr>ts_country_code = ''JP'', ts_country_name = ''Japan'', ts_capital = ''Tokyo'',
           ts_region = ''Asia'', ts_population = 125836021, ts_currencies = [''JPY''],
           ts_languages = [''Japanese''],
           current_weather = \<lparr>location = ''Tokyo'', temperature_celsius = Finite 5,
             weather_description = ''Slight rain'', humidity = 80,
             wind_speed_kmh = Finite 12.5\<rparr>,
           travel_tips = [''Bring warm layers - it's cold!'',
             ''Pack a good jacket and warm accessories'', ''Bring an umbrella or rain jacket'',
             ''Learn a few local phrases - it's appreciated!'',
             ''Research local customs and etiquette for Japan''],
           best_time_to_visit
             = ''March-May (cherry blossoms) or October-November (autumn colors)''\<rparr>,
      [AlphaCodes ''JP,FR,IT,ES,TH,AU,GB,DE,NZ,CA'', AlphaCode ''JP'', GeocodingSearch ''Tokyo'',
       Forecast (JFloat (Finite 35.6895)) (JFloat (Finite 139.69171))])
   \<and> get_travel_summary_by_name (upstream (sample_http tokyo_found rainy_5_degrees))
      \<lparr>req_country_name = ''Atlantis''\<rparr>
   = (Inl (HTTPException 404
        ''Country 'Atlantis' not found in destinations. Available countries: Japan, France...''),
      [AlphaCodes ''JP,FR,IT,ES,TH,AU,GB,DE,NZ,CA''])
   \<and> get_travel_summary (upstream (sample_http tokyo_found rainy_5_degrees))
      \<lparr>req_country_code = Some ''jp''\<rparr>
   = spec_summary_pipeline (upstream (sample_http tokyo_found rainy_5_degrees)) ''JP''"
proof -
  have u: "upper ''jp'' = ''JP''" by code_simp
  have s: "strip ''Atlantis'' = ''Atlantis''" by code_simp
  note hit = summary_by_name_pipeline
      [where env = "upstream (sample_http tokyo_found rainy_5_degrees)"
         and request = "\<lparr>req_country_name = ''  japan ''\<rparr>"
         and ds = "[\<lparr>country_code = ''JP'', country_name = ''Japan'', capital = ''Tokyo'',
             region = ''Asia'', population = 125836021, currencies = [''JPY''],
             languages = [''Japanese'']\<rparr>,
             \<lparr>country_code = ''FR'', country_name = ''France'', capital = ''Paris'',
             region = ''Europe'', population = 67391582, currencies = [''EUR''],
             languages = [''French'']\<rparr>]"
         and tr = "[AlphaCodes ''JP,FR,IT,ES,TH,AU,GB,DE,NZ,CA'']"
         and m = "\<lparr>country_code = ''JP'', country_name = ''Japan'', capital = ''Tokyo'',
             region = ''Asia'', population = 125836021, currencies = [''JPY''],
             languages = [''Japanese'']\<rparr>"
         and creq = "\<lparr>req_country_code = Some ''jp''\<rparr>" and c = "''jp''"]
  note miss = summary_by_name_pipeline
      [where env = "upstream (sample_http tokyo_found rainy_5_degrees)"
         and request = "\<lparr>req_country_name = ''Atlantis''\<rparr>"
         and ds = "[\<lparr>country_code = ''JP'', country_name = ''Japan'', capital = ''Tokyo'',
             region = ''Asia'', population = 125836021, currencies = [''JPY''],
             languages = [''Japanese'']\<rparr>,
             \<lparr>country_code = ''FR'', country_name = ''France'', capital = ''Paris'',
             region = ''Europe'', population = 67391582, currencies = [''EUR''],
             languages = [''French'']\<rparr>]"
         and tr = "[AlphaCodes ''JP,FR,IT,ES,TH,AU,GB,DE,NZ,CA'']"]
  show ?thesis
    using hit miss sample_destinations[of tokyo_found rainy_5_degrees] find_japan find_atlantis
      sample_pipeline u s
    by simp
qed

subsection \<open>Geocoding absence\<close>

lemma coordinates_absent:
  assumes "http env (GeocodingSearch city) = RequestError msg
     \<or> http env (GeocodingSearch city) = StatusError st msg
     \<or> (http env (GeocodingSearch city) = Success (Some (JObj kvs))
         \<and> \<not> truthy (case map_of kvs ''results'' of None \<Rightarrow> JNull | Some v \<Rightarrow> v))"
  shows "get_coordinates env city code = (Inr (JNull, JNull), [GeocodingSearch city])"
  using assms
  by (auto simp add: get_coordinates_def Let_def bind_err_simps)

lemma by_code_absent:
  assumes "req_country_code creq = Some c" and "c \<noteq> []"
    and "get_destination_info env (upper c) = (Inr d, tra)"
    and "get_coordinates env (capital d) (upper c) = (Inr (lat, lon), trb)"
    and "lat = JNull \<or> lon = JNull"
  shows "get_travel_summary env creq
     = (Inl (HTTPException 503 (''Could not find coordinates for '' @ capital d)), tra @ trb)"
  using assms
  by (auto simp add: get_travel_summary_def Let_def await_simps pure_def)

lemma by_name_absent:
  assumes "get_destinations env = (Inr ds, tr)"
    and "find (name_matches (strip (req_country_name request))) ds = Some m"
    and "get_destination_info env (country_code m) = (Inr d, tra)"
    and "get_coordinates env (capital d) (country_code m) = (Inr (lat, lon), trb)"
    and "lat = JNull \<or> lon = JNull"
  shows "get_travel_summary_by_name env request
     = (Inl (HTTPException 503 (''Could not find coordinates for '' @ capital d)),
        tr @ tra @ trb)"
  using assms
  by (auto simp add: get_travel_summary_by_name_def Let_def await_simps pure_def)

lemma geocoding_down:
  "get_coordinates (upstream (sample_http (RequestError msg) fc)) city code
     = (Inr (JNull, JNull), [GeocodingSearch city])"
  by (simp add: get_coordinates_def upstream_def sample_http_def Let_def)

text \<open>
  C3, as stated: the geocoding operation never raises. It catches the errors of the HTTP
  client only: when the service answers with a first result that has no member
  "latitude", the lookup of that member raises KeyError, which escapes.
\<close>

theorem geocoding_raises_counterexample:
  "get_coordinates (upstream (sample_http result_without_latitude rainy_5_degrees))
     ''Tokyo'' ''JP''
   = (Inl (Uncaught KeyError), [GeocodingSearch ''Tokyo''])"
  by (simp add: get_coordinates_def upstream_def sample_http_def result_without_latitude_def
      Let_def bind_err_simps)

text \<open>
  C3, amended. When the underlying call fails with a transport or HTTP status error, or
  the service answers with a JSON object whose member "results" is missing or falsy, the
  geocoding operation returns the pair (None, None) and raises nothing. Both summaries
  then fail with status 503 and the message "Could not find coordinates for " followed by
  the capital, which holds nothing of the upstream error; they do so whenever either
  coordinate returned is None.
\<close>

theorem geocoding_absence_becomes_503:
  "(http env (GeocodingSearch city) = RequestError msg
     \<or> http env (GeocodingSearch city) = StatusError st msg
     \<or> (http env (GeocodingSearch city) = Success (Some (JObj kvs))
         \<and> \<not> truthy (case map_of kvs ''results'' of None \<Rightarrow> JNull | Some v \<Rightarrow> v))
     \<longrightarrow> get_coordinates env city code = (Inr (JNull, JNull), [GeocodingSearch city]))
   \<and> (req_country_code creq = Some c \<and> c \<noteq> []
       \<and> get_destination_info env (upper c) = (Inr d, tra)
       \<and> get_coordinates env (capital d) (upper c) = (Inr (lat, lon), trb)
       \<and> (lat = JNull \<or> lon = JNull)
     \<longrightarrow> get_travel_summary env creq
           = (Inl (HTTPException 503 (''Could not find coordinates for '' @ capital d)),
              tra @ trb))
   \<and> (get_destinations env = (Inr ds, tr)
       \<and> find (name_matches (strip (req_country_name request))) ds = Some m
       \<and> get_destination_info env (country_code m) = (Inr d, tra)
       \<and> get_coordinates env (capital d) (country_code m) = (Inr (lat, lon), trb)
       \<and> (lat = JNull \<or> lon = JNull)
     \<longrightarrow> get_travel_summary_by_name env request
           = (Inl (HTTPException 503 (''Could not find coordinates for '' @ capital d)),
              tr @ tra @ trb))"
  using coordinates_absent[of env city msg st kvs code]
    by_code_absent[of creq c env d tra lat lon trb]
    by_name_absent[of env ds tr request m d tra lat lon trb]
  by (intro conjI) blast+

theorem geocoding_absence_becomes_503_witness:
  "get_coordinates (upstream (sample_http (RequestError ''timed out'') rainy_5_degrees))
     ''Tokyo'' ''JP''
   = (Inr (JNull, JNull), [GeocodingSearch ''Tokyo''])
   \<and> get_coordinates
       (upstream (sample_http (Success (Some (JObj [(''generationtime_ms'', JFloat (Finite 0.5))])))
          rainy_5_degrees))
       ''Tokyo'' ''JP''
   = (Inr (JNull, JNull), [GeocodingSearch ''Tokyo''])
   \<and> get_travel_summary (upstream (sample_http (RequestError ''timed out'') rainy_5_degrees))
       \<lparr>req_country_code = Some ''jp''\<rparr>
   = (Inl (HTTPException 503 ''Could not find coordinates for Tokyo''),
      [AlphaCode ''JP'', GeocodingSearch ''Tokyo''])
   \<and> get_travel_summary_by_name
       (upstream (sample_http (RequestError ''timed out'') rainy_5_degrees))
       \<lparr>req_country_name = ''  japan ''\<rparr>
   = (Inl (HTTPException 503 ''Could not find coordinates for Tokyo''),
      [AlphaCodes ''JP,FR,IT,ES,TH,AU,GB,DE,NZ,CA'', AlphaCode ''JP'',
       GeocodingSearch ''Tokyo''])"
proof -
  have u: "upper ''jp'' = ''JP''" "upper ''JP'' = ''JP''" by code_simp+
  have h1: "http (upstream (sample_http (RequestError ''timed out'') rainy_5_degrees))
              (GeocodingSearch ''Tokyo'') = RequestError ''timed out''"
    by (simp add: upstream_def sample_http_def)
  have h2: "http (upstream (sample_http
               (Success (Some (JObj [(''generationtime_ms'', JFloat (Finite 0.5))])))
               rainy_5_degrees))
              (GeocodingSearch ''Tokyo'')
            = Success (Some (JObj [(''generationtime_ms'', JFloat (Finite 0.5))]))"
    by (simp add: upstream_def sample_http_def)
  note down = geocoding_absence_becomes_503
      [where env = "upstream (sample_http (RequestError ''timed out'') rainy_5_degrees)"
         and city = "''Tokyo''" and code = "''JP''" and msg = "''timed out''"
         and creq = "\<lparr>req_country_code = Some ''jp''\<rparr>" and c = "''jp''"
         and d = "\<lparr>country_code = ''JP'', country_name = ''Japan'', capital = ''Tokyo'',
             region = ''Asia'', population = 125836021, currencies = [''JPY''],
             languages = [''Japanese'']\<rparr>"
         and tra = "[AlphaCode ''JP'']" and lat = JNull and lon = JNull
         and trb = "[GeocodingSearch ''Tokyo'']"
         and request = "\<lparr>req_country_name = ''  japan ''\<rparr>"
         and ds = "[\<lparr>country_code = ''JP'', country_name = ''Japan'', capital = ''Tokyo'',
             region = ''Asia'', population = 125836021, currencies = [''JPY''],
             languages = [''Japanese'']\<rparr>,
             \<lparr>country_code = ''FR'', country_name = ''France'', capital = ''Paris'',
             region = ''Europe'', population = 67391582, currencies = [''EUR''],
             languages = [''French'']\<rparr>]"
         and tr = "[AlphaCodes ''JP,FR,IT,ES,TH,AU,GB,DE,NZ,CA'']"
         and m = "\<lparr>country_code = ''JP'', country_name = ''Japan'', capital = ''Tokyo'',
             region = ''Asia'', population = 125836021, currencies = [''JPY''],
             languages = [''Japanese'']\<rparr>"]
  note empty = geocoding_absence_becomes_503
      [where env = "upstream (sample_http
               (Success (Some (JObj [(''generationtime_ms'', JFloat (Finite 0.5))])))
               rainy_5_degrees)"
         and city = "''Tokyo''" and code = "''JP''"
         and kvs = "[(''generationtime_ms'', JFloat (Finite 0.5))]"]
  show ?thesis
    using down empty h1 h2 u
      japan_destination_upper[OF u(2), of "RequestError ''timed out''" rainy_5_degrees]
      geocoding_down[of "''timed out''" rainy_5_degrees "''Tokyo''" "''JP''"]
      sample_destinations[of "RequestError ''timed out''" rainy_5_degrees] find_japan
    by simp
qed

(* C10 *)

subsection \<open>Weather data missing from a successful answer\<close>

lemma dict_get_added_zero:
  assumes "map_of cur k = None"
  shows "dict_get (JObj ((k, JInt 0) # cur)) k' (JInt 0) = dict_get (JObj cur) k' (JInt 0)"
  using assms by simp

lemma weather_of_body:
  assumes "http env (Forecast lat lon) = Success (Some (JObj kvs))"
  shows "get_weather_for_location env lat lon name
     = (bind_err (dict_get (JObj kvs) ''current'' (JObj [])) (\<lambda>current.
        bind_err (dict_get current ''weather_code'' (JInt 0)) (\<lambda>weather_code.
        bind_err (dict_get current ''temperature_2m'' (JInt 0)) (\<lambda>temp.
        bind_err (weather_codes_get weather_code) (\<lambda>descr.
        bind_err (dict_get current ''relative_humidity_2m'' (JInt 0)) (\<lambda>hum.
        bind_err (dict_get current ''wind_speed_10m'' (JInt 0)) (\<lambda>wind.
          new_Weather env name temp descr hum wind)))))), [Forecast lat lon])"
  using assms by (simp add: get_weather_for_location_def Let_def)

lemma default_weather:
  "new_Weather env name (JInt 0) ''Clear sky'' (JInt 0) (JInt 0)
     = Inr \<lparr>location = name, temperature_celsius = Finite 0,
             weather_description = ''Clear sky'', humidity = 0, wind_speed_kmh = Finite 0\<rparr>"
  by (simp add: new_Weather_def validate_float_def validate_int_def)

lemma clear_sky: "weather_codes_get_int 0 = ''Clear sky''"
  by (simp add: weather_codes_get_int_def weather_codes_def)

lemma no_current:
  assumes "http env (Forecast lat lon) = Success (Some (JObj kvs))"
    and "map_of kvs ''current'' = None
         \<or> (map_of kvs ''current'' = Some (JObj cur)
            \<and> map_of cur ''weather_code'' = None \<and> map_of cur ''temperature_2m'' = None
            \<and> map_of cur ''relative_humidity_2m'' = None \<and> map_of cur ''wind_speed_10m'' = None)"
  shows "get_weather_for_location env lat lon name
     = (Inr \<lparr>location = name, temperature_celsius = Finite 0,
             weather_description = ''Clear sky'', humidity = 0, wind_speed_kmh = Finite 0\<rparr>,
        [Forecast lat lon])"
  using assms(2)
  by (auto simp add: weather_of_body[OF assms(1)] bind_err_simps clear_sky default_weather)

lemma new_Weather_fields:
  assumes "new_Weather env name temp descr hum wind = Inr w"
  shows "validate_float env temp = Some (temperature_celsius w)"
    and "weather_description w = descr"
    and "validate_int env hum = Some (humidity w)"
    and "validate_float env wind = Some (wind_speed_kmh w)"
  using assms by (auto simp add: new_Weather_def split: option.splits)

lemma missing_fields:
  assumes "http env (Forecast lat lon) = Success (Some (JObj kvs))"
    and "map_of kvs ''current'' = Some (JObj cur)"
    and "get_weather_for_location env lat lon name = (Inr w, t)"
  shows "(map_of cur ''weather_code'' = None \<longrightarrow> weather_description w = ''Clear sky'')
      \<and> (map_of cur ''temperature_2m'' = None \<longrightarrow> temperature_celsius w = Finite 0)
      \<and> (map_of cur ''relative_humidity_2m'' = None \<longrightarrow> humidity w = 0)
      \<and> (map_of cur ''wind_speed_10m'' = None \<longrightarrow> wind_speed_kmh w = Finite 0)"
proof -
  from assms(3) obtain descr where
    d: "weather_codes_get (case map_of cur ''weather_code'' of None \<Rightarrow> JInt 0 | Some v \<Rightarrow> v)
          = Inr descr"
    and nw: "new_Weather env name
          (case map_of cur ''temperature_2m'' of None \<Rightarrow> JInt 0 | Some v \<Rightarrow> v) descr
          (case map_of cur ''relative_humidity_2m'' of None \<Rightarrow> JInt 0 | Some v \<Rightarrow> v)
          (case map_of cur ''wind_speed_10m'' of None \<Rightarrow> JInt 0 | Some v \<Rightarrow> v) = Inr w"
    unfolding weather_of_body[OF assms(1)]
    by (auto simp add: assms(2) bind_err_simps bind_err_Inr_iff)
  note f = new_Weather_fields[OF nw]
  have "map_of cur ''weather_code'' = None \<Longrightarrow> weather_description w = ''Clear sky''"
    using d f(2) by (simp add: clear_sky)
  moreover have "map_of cur ''temperature_2m'' = None \<Longrightarrow> temperature_celsius w = Finite 0"
    using f(1) by (simp add: validate_float_def)
  moreover have "map_of cur ''relative_humidity_2m'' = None \<Longrightarrow> humidity w = 0"
    using f(3) by (simp add: validate_int_def)
  moreover have "map_of cur ''wind_speed_10m'' = None \<Longrightarrow> wind_speed_kmh w = Finite 0"
    using f(4) by (simp add: validate_float_def)
  ultimately show ?thesis by blast
qed

lemma validate_http:
  "validate_float (env\<lparr>http := h\<rparr>) v = validate_float env v"
  "validate_int (env\<lparr>http := h\<rparr>) v = validate_int env v"
  by (cases v; simp add: validate_float_def validate_int_def)+

lemma new_Weather_http:
  "new_Weather (env\<lparr>http := h\<rparr>) = new_Weather env"
  by (intro ext) (simp add: new_Weather_def validate_http)

lemma added_zero_same:
  assumes "http env (Forecast lat lon) = Success (Some (JObj kvs))"
    and "map_of kvs ''current'' = Some (JObj cur)"
    and "map_of cur k = None"
  shows "get_weather_for_location
           (env\<lparr>http := (http env)(Forecast lat lon :=
              Success (Some (JObj ((''current'', JObj ((k, JInt 0) # cur)) # kvs))))\<rparr>)
           lat lon name
         = get_weather_for_location env lat lon name"
proof -
  have h: "http (env\<lparr>http := (http env)(Forecast lat lon :=
              Success (Some (JObj ((''current'', JObj ((k, JInt 0) # cur)) # kvs))))\<rparr>)
             (Forecast lat lon)
           = Success (Some (JObj ((''current'', JObj ((k, JInt 0) # cur)) # kvs)))"
    by simp
  show ?thesis
    unfolding weather_of_body[OF h] weather_of_body[OF assms(1)]
    using assms(2,3)
    by (simp add: bind_err_simps new_Weather_http del: dict_get.simps
        add: dict_get_added_zero dict_get.simps(1)[of "(''current'', JObj ((k, JInt 0) # cur)) # kvs"]
             dict_get.simps(1)[of kvs])
qed

text \<open>
  C10. When the weather service answers successfully with a JSON object that has no
  member "current", or whose "current" object has none of the four members read, the
  weather client returns a weather of 0 degrees, "Clear sky", humidity 0 and wind speed 0.
  In any weather it returns, each member missing from "current" shows as that default;
  and a missing member is the same as that member with the value 0: adding it changes
  neither the result nor whether there is one.
\<close>

theorem missing_weather_data_defaults:
  "(http env (Forecast lat lon) = Success (Some (JObj kvs))
     \<and> (map_of kvs ''current'' = None
         \<or> (map_of kvs ''current'' = Some (JObj cur)
            \<and> map_of cur ''weather_code'' = None \<and> map_of cur ''temperature_2m'' = None
            \<and> map_of cur ''relative_humidity_2m'' = None \<and> map_of cur ''wind_speed_10m'' = None))
     \<longrightarrow> get_weather_for_location env lat lon name
           = (Inr \<lparr>location = name, temperature_celsius = Finite 0,
                   weather_description = ''Clear sky'', humidity = 0,
                   wind_speed_kmh = Finite 0\<rparr>, [Forecast lat lon]))
   \<and> (http env (Forecast lat lon) = Success (Some (JObj kvs))
       \<and> map_of kvs ''current'' = Some (JObj cur)
       \<and> get_weather_for_location env lat lon name = (Inr w, t)
     \<longrightarrow> (map_of cur ''weather_code'' = None \<longrightarrow> weather_description w = ''Clear sky'')
        \<and> (map_of cur ''temperature_2m'' = None \<longrightarrow> temperature_celsius w = Finite 0)
        \<and> (map_of cur ''relative_humidity_2m'' = None \<longrightarrow> humidity w = 0)
        \<and> (map_of cur ''wind_speed_10m'' = None \<longrightarrow> wind_speed_kmh w = Finite 0))
   \<and> (http env (Forecast lat lon) = Success (Some (JObj kvs))
       \<and> map_of kvs ''current'' = Some (JObj cur) \<and> map_of cur k = None
     \<longrightarrow> get_weather_for_location
           (env\<lparr>http := (http env)(Forecast lat lon :=
              Success (Some (JObj ((''current'', JObj ((k, JInt 0) # cur)) # kvs))))\<rparr>)
           lat lon name
         = get_weather_for_location env lat lon name)"
  using no_current[of env lat lon kvs cur name] missing_fields[of env lat lon kvs cur name w t]
    added_zero_same[of env lat lon kvs cur k name]
  by (intro conjI) blast+

theorem missing_weather_data_defaults_witness:
  "get_weather_for_location (upstream (sample_http tokyo_found (Success (Some (JObj [])))))
      (JFloat (Finite 35.6895)) (JFloat (Finite 139.69171)) ''Tokyo''
   = (Inr \<lparr>location = ''Tokyo'', temperature_celsius = Finite 0,
           weather_description = ''Clear sky'', humidity = 0, wind_speed_kmh = Finite 0\<rparr>,
      [Forecast (JFloat (Finite 35.6895)) (JFloat (Finite 139.69171))])
   \<and> get_weather_for_location
      (upstream (sample_http tokyo_found
         (Success (Some (JObj [(''current'', JObj [(''temperature_2m'', JFloat (Finite 21.5))])])))))
      (JFloat (Finite 35.6895)) (JFloat (Finite 139.69171)) ''Tokyo''
   = (Inr \<lparr>location = ''Tokyo'', temperature_celsius = Finite 21.5,
           weather_description = ''Clear sky'', humidity = 0, wind_speed_kmh = Finite 0\<rparr>,
      [Forecast (JFloat (Finite 35.6895)) (JFloat (Finite 139.69171))])
   \<and> weather_description \<lparr>location = ''Tokyo'', temperature_celsius = Finite 21.5,
           weather_description = ''Clear sky'', humidity = 0, wind_speed_kmh = Finite 0\<rparr>
     = ''Clear sky''"
proof -
  have h1: "http (upstream (sample_http tokyo_found (Success (Some (JObj [])))))
              (Forecast (JFloat (Finite 35.6895)) (JFloat (Finite 139.69171)))
            = Success (Some (JObj []))"
    by (simp add: upstream_def sample_http_def)
  have h2: "http (upstream (sample_http tokyo_found
         (Success (Some (JObj [(''current'', JObj [(''temperature_2m'', JFloat (Finite 21.5))])])))))
              (Forecast (JFloat (Finite 35.6895)) (JFloat (Finite 139.69171)))
            = Success (Some (JObj [(''current'', JObj [(''temperature_2m'', JFloat (Finite 21.5))])]))"
    by (simp add: upstream_def sample_http_def)
  have e2: "get_weather_for_location
      (upstream (sample_http tokyo_found
         (Success (Some (JObj [(''current'', JObj [(''temperature_2m'', JFloat (Finite 21.5))])])))))
      (JFloat (Finite 35.6895)) (JFloat (Finite 139.69171)) ''Tokyo''
   = (Inr \<lparr>location = ''Tokyo'', temperature_celsius = Finite 21.5,
           weather_description = ''Clear sky'', humidity = 0, wind_speed_kmh = Finite 0\<rparr>,
      [Forecast (JFloat (Finite 35.6895)) (JFloat (Finite 139.69171))])"
    unfolding weather_of_body[OF h2]
    by (simp add: bind_err_simps clear_sky new_Weather_def validate_float_def validate_int_def)
  note a = missing_weather_data_defaults
      [where env = "upstream (sample_http tokyo_found (Success (Some (JObj []))))"
         and lat = "JFloat (Finite 35.6895)" and lon = "JFloat (Finite 139.69171)"
         and kvs = "[]" and name = "''Tokyo''"]
  note b = missing_weather_data_defaults
      [where env = "upstream (sample_http tokyo_found
         (Success (Some (JObj [(''current'', JObj [(''temperature_2m'', JFloat (Finite 21.5))])]))))"
         and lat = "JFloat (Finite 35.6895)" and lon = "JFloat (Finite 139.69171)"
         and kvs = "[(''current'', JObj [(''temperature_2m'', JFloat (Finite 21.5))])]"
         and cur = "[(''temperature_2m'', JFloat (Finite 21.5))]" and name = "''Tokyo''"
         and w = "\<lparr>location = ''Tokyo'', temperature_celsius = Finite 21.5,
           weather_description = ''Clear sky'', humidity = 0, wind_speed_kmh = Finite 0\<rparr>"
         and t = "[Forecast (JFloat (Finite 35.6895)) (JFloat (Finite 139.69171))]"]
  show ?thesis using a b h1 h2 e2 by simp
qed

end
